theory Spec2Isabelle
  imports Complex_Main
begin

section \<open>Data model of the game world (src/index.js)\<close>

text \<open>
  JavaScript numbers are modelled exactly: fields that the code only ever fills with
  integers are \<^typ>\<open>int\<close>, fractional constants and the results of
  \<^verbatim>\<open>Math.random()\<close> are \<^typ>\<open>rat\<close>, and \<^verbatim>\<open>Math.floor\<close> is
  \<^const>\<open>floor\<close>.  \<^verbatim>\<open>Math.floor(x / 100)\<close> on an integer \<open>x\<close> is \<open>x div 100\<close>
  (both round towards minus infinity).  Timestamps are milliseconds as \<^typ>\<open>int\<close>, and one
  call reads the clock once.

  Exact arithmetic stands for double precision.  The two give the same integer after
  \<^verbatim>\<open>Math.floor\<close> for the class multipliers on the multiples of five that
  \<^verbatim>\<open>calculateDamage\<close> forms, for the damage and energy factors of the formations
  on the base damages 100 to 299 and on 30, and for the auction fee \<^verbatim>\<open>bid * 0.1\<close>:
  the doubles nearest to 1.1, 1.3, 0.9, 0.8 and 0.1 lie above these numbers, 1.5 and 1.0 are
  exact, and the double nearest to 1.2 lies so little below 1.2 that a product which should
  be an integer still rounds to it.  Elsewhere (the loyalty factor and the credits of a team
  raid, the random factor of a raid) the model is that of exact arithmetic.
\<close>

subsection \<open>The source of random numbers\<close>

text \<open>
  Every \<^verbatim>\<open>Math.random()\<close> call takes the next element of a stream of draws in
  \<open>[0, 1)\<close>; a function that draws returns the rest of the stream.
\<close>

type_synonym rng = "nat \<Rightarrow> rat"

definition draw :: "rng \<Rightarrow> rat \<times> rng" where
  "draw g = (g 0, \<lambda>n. g (Suc n))"

subsection \<open>Rebels\<close>

record stats =
  strength :: int
  intelligence :: int
  charisma :: int
  stealth :: int

text \<open>
  The fields of \<^verbatim>\<open>createRebel\<close> that the modelled operations read or write
  (\<^verbatim>\<open>class\<close> is \<open>rclass\<close>).  The remaining ones (daily streak, zone, reputation,
  abilities, tutorial flag) are touched by none of them.
\<close>

record rebel =
  userId :: string
  username :: string
  rclass :: string
  level :: int
  experience :: int
  energy :: int
  maxEnergy :: int
  loyaltyScore :: int
  corporateDamage :: int
  totalRaids :: int
  corporationsDefeated :: int
  lastActive :: int
  rstats :: stats

subsection \<open>Base damage: the two implementations\<close>

text \<open>\<^verbatim>\<open>calculateDamage\<close> of the game class, src/index.js.\<close>

definition classMultipliers :: "(string \<times> rat) list" where
  "classMultipliers =
     [(''Protocol Hacker'', 12 / 10),
      (''Model Trainer'', 1),
      (''Data Liberator'', 11 / 10),
      (''Community Organizer'', 9 / 10),
      (''Enclave Guardian'', 8 / 10)]"

definition calculateDamage :: "rebel \<Rightarrow> int" where
  "calculateDamage rebel =
     (let baseClassDamage = 50;
          levelBonus = level rebel * 10;
          loyaltyBonus = (loyaltyScore rebel div 100) * 5;
          classMultiplier = (case map_of classMultipliers (rclass rebel) of
                               Some m \<Rightarrow> m | None \<Rightarrow> 1)
      in \<lfloor>of_int (baseClassDamage + levelBonus + loyaltyBonus) * classMultiplier\<rfloor>)"

text \<open>\<^verbatim>\<open>calculateDamage\<close> of the slash command, src/commands/raid.js.\<close>

definition raid_classMultipliers :: "(string \<times> rat) list" where
  "raid_classMultipliers =
     [(''Protocol Hacker'', 12 / 10),
      (''Model Trainer'', 1),
      (''Data Liberator'', 11 / 10),
      (''Community Organizer'', 9 / 10),
      (''Enclave Guardian'', 8 / 10)]"

definition raid_calculateDamage :: "rebel \<Rightarrow> int" where
  "raid_calculateDamage rebel =
     (let baseClassDamage = 50;
          levelBonus = level rebel * 10;
          loyaltyBonus = (loyaltyScore rebel div 100) * 5;
          classMultiplier = (case map_of raid_classMultipliers (rclass rebel) of
                               Some m \<Rightarrow> m | None \<Rightarrow> 1)
      in \<lfloor>of_int (baseClassDamage + levelBonus + loyaltyBonus) * classMultiplier\<rfloor>)"

text \<open>
  The formula in the words of the specification: class multiplier times
  \<open>50 + 10 \<times> level + 5 \<times> floor (loyalty / 100)\<close>, rounded down; a class outside the table
  counts as 1.0.
\<close>

definition spec_classMultiplier :: "string \<Rightarrow> rat" where
  "spec_classMultiplier c =
     (if c = ''Protocol Hacker'' then 12 / 10
      else if c = ''Model Trainer'' then 1
      else if c = ''Data Liberator'' then 11 / 10
      else if c = ''Community Organizer'' then 9 / 10
      else if c = ''Enclave Guardian'' then 8 / 10
      else 1)"

definition spec_baseDamage :: "string \<Rightarrow> int \<Rightarrow> int \<Rightarrow> int" where
  "spec_baseDamage c lvl loyalty =
     \<lfloor>of_int (50 + 10 * lvl + 5 * \<lfloor>(of_int loyalty :: rat) / 100\<rfloor>) * spec_classMultiplier c\<rfloor>"

subsection \<open>Items, inventories, corporations and the world\<close>

text \<open>
  An item identifier is a string built from the clock and either a random draw or a loop
  index; the model keeps the ingredients of the string.
\<close>

datatype item_ident =
    ITM int rat             \<comment> \<open>\<^verbatim>\<open>generateItemId()\<close>: clock and one draw\<close>
  | Stamp_Index int nat     \<comment> \<open>\<^verbatim>\<open>`${Date.now()}_${i}`\<close>\<close>
  | Stamp_Rand int rat      \<comment> \<open>\<^verbatim>\<open>`${Date.now()}_${Math.random()...}`\<close>\<close>

record item =
  item_id :: item_ident
  item_name :: string
  item_type :: string
  rarity :: string
  item_value :: int
  acquiredFrom :: string
  acquiredAt :: int
  activatedAt :: "int option"   \<comment> \<open>\<open>None\<close>: \<^verbatim>\<open>null\<close> or absent\<close>

record inventory_rec =
  items :: "item list"
  capacity :: int
  credits :: int

record countermeasure =
  cm_id :: item_ident
  cm_type :: string
  cm_target :: string
  cm_corporation :: string
  startTime :: int
  endTime :: int
  severity :: string
  effect :: string
  blocked :: bool

record corporation =
  corp_name :: string
  health :: int
  maxHealth :: int
  loot :: "string list"
  alertLevel :: int
  cm_active :: "countermeasure list"       \<comment> \<open>\<^verbatim>\<open>countermeasures.active\<close>\<close>
  lastActivated :: "int option"            \<comment> \<open>\<^verbatim>\<open>countermeasures.lastActivated\<close>\<close>
  knownRebels :: "string set"              \<comment> \<open>\<^verbatim>\<open>intelligence.knownRebels\<close>\<close>
  threatAssessment :: "string \<rightharpoonup> rat"    \<comment> \<open>\<^verbatim>\<open>intelligence.threatAssessment\<close>\<close>

text \<open>
  Raid parties, marketplace listings and auctions are created by command modules that
  src/index.js imports; each record has the properties that src/index.js reads or writes.
\<close>

record member_result =
  mr_member :: string
  mr_damage :: int
  mr_energyUsed :: int

record team_loot =
  tl_credits :: int
  tl_items :: "item list"

record raid_results =
  res_totalDamage :: int
  res_memberResults :: "member_result list"
  res_loot :: team_loot
  res_timestamp :: int

record raid_party =
  party_id :: string
  leader :: string
  members :: "string list"
  readyMembers :: "string list"   \<comment> \<open>a \<^verbatim>\<open>Set\<close>, in insertion order\<close>
  target :: string
  formation :: string
  state :: string
  results :: "raid_results option"

record listing =
  l_sellerId :: string
  l_item :: item
  l_expiresAt :: int

record auction =
  a_sellerId :: string
  a_item :: item
  startingBid :: int
  currentBid :: int
  currentBidder :: "string option"
  a_endTime :: int
  a_status :: string
  winner :: "string option"

text \<open>
  The maps of the game object.  \<^verbatim>\<open>marketplace\<close> and \<^verbatim>\<open>auctions\<close> are
  iterated by the sweeps, so they keep the insertion order of the JavaScript
  \<^verbatim>\<open>Map\<close>; the others are only looked up by key.  A rebel is stored under its own
  \<open>userId\<close>, so the model addresses the rebel object by that key.
\<close>

record world =
  rebels :: "string \<rightharpoonup> rebel"
  corporations :: "string \<rightharpoonup> corporation"
  inventory :: "string \<rightharpoonup> inventory_rec"
  achievements :: "string \<rightharpoonup> string list"   \<comment> \<open>the \<^verbatim>\<open>unlocked\<close> list\<close>
  raidParties :: "string \<rightharpoonup> raid_party"
  marketplace :: "(string \<times> listing) list"
  auctions :: "(string \<times> auction) list"

text \<open>
  A call either runs to its end or is cut short by a \<^verbatim>\<open>TypeError\<close> (a property
  read on \<^verbatim>\<open>undefined\<close>); the mutations made before the error stay.
\<close>

datatype 'a completion = Normal 'a | Throws 'a

subsection \<open>Fixed tables\<close>

record defensive_item =
  d_name :: string
  protection :: int
  d_duration :: int
  d_rarity :: string
  cost :: int

definition defensiveItems :: "(string \<times> defensive_item) list" where
  "defensiveItems =
     [(''digital_shield'',
        \<lparr>d_name = ''Digital Shield'', protection = 75, d_duration = 3600000,
         d_rarity = ''rare'', cost = 500\<rparr>),
      (''encryption_cloak'',
        \<lparr>d_name = ''Encryption Cloak'', protection = 50, d_duration = 7200000,
         d_rarity = ''uncommon'', cost = 300\<rparr>),
      (''proxy_network'',
        \<lparr>d_name = ''Proxy Network'', protection = 90, d_duration = 1800000,
         d_rarity = ''epic'', cost = 800\<rparr>),
      (''sanctuary_pass'',
        \<lparr>d_name = ''Sanctuary Pass'', protection = 100, d_duration = 10800000,
         d_rarity = ''legendary'', cost = 1200\<rparr>)]"

record countermeasure_type =
  ct_effect :: string
  ct_severity :: string
  ct_duration :: int

definition countermeasureTypes :: "(string \<times> countermeasure_type) list" where
  "countermeasureTypes =
     [(''cyber_attack'',
        \<lparr>ct_effect = ''energy_drain'', ct_severity = ''medium'', ct_duration = 1800000\<rparr>),
      (''surveillance_sweep'',
        \<lparr>ct_effect = ''reduced_stealth'', ct_severity = ''low'', ct_duration = 3600000\<rparr>),
      (''economic_warfare'',
        \<lparr>ct_effect = ''credit_loss'', ct_severity = ''high'', ct_duration = 2700000\<rparr>),
      (''propaganda_campaign'',
        \<lparr>ct_effect = ''loyalty_reduction'', ct_severity = ''medium'', ct_duration = 5400000\<rparr>),
      (''legal_action'',
        \<lparr>ct_effect = ''activity_restriction'', ct_severity = ''high'', ct_duration = 7200000\<rparr>)]"

record formation_rec =
  f_name :: string
  damageBonus :: rat
  energyCost :: rat
  stealthBonus :: "rat option"
  lootBonus :: "rat option"

definition formations :: "(string \<times> formation_rec) list" where
  "formations =
     [(''assault_formation'',
        \<lparr>f_name = ''Assault Formation'', damageBonus = 15 / 10, energyCost = 12 / 10,
         stealthBonus = None, lootBonus = None\<rparr>),
      (''stealth_formation'',
        \<lparr>f_name = ''Stealth Formation'', damageBonus = 12 / 10, energyCost = 8 / 10,
         stealthBonus = Some (7 / 10), lootBonus = None\<rparr>),
      (''guardian_formation'',
        \<lparr>f_name = ''Guardian Formation'', damageBonus = 11 / 10, energyCost = 9 / 10,
         stealthBonus = None, lootBonus = None\<rparr>),
      (''balanced_formation'',
        \<lparr>f_name = ''Balanced Formation'', damageBonus = 13 / 10, energyCost = 1,
         stealthBonus = None, lootBonus = Some (12 / 10)\<rparr>)]"

text \<open>The achievement templates: identifier and loyalty points.\<close>

definition achievementTemplates :: "(string \<times> int) list" where
  "achievementTemplates =
     [(''first_rebel'', 10), (''first_raid'', 25), (''first_victory'', 50),
      (''damage_1k'', 100), (''damage_10k'', 250), (''damage_100k'', 500),
      (''loyalty_100'', 50), (''loyalty_1k'', 150), (''loyalty_10k'', 400),
      (''mentor'', 200), (''team_leader'', 150), (''alliance_warrior'', 300),
      (''daily_streak_7'', 100), (''all_corps_defeated'', 500), (''legendary_rebel'', 1000)]"

subsection \<open>In-place mutation of a stored object\<close>

text \<open>
  A rebel, corporation or inventory is one object reached through its map; a field
  assignment is an update of the entry under its key.
\<close>

definition update_rebel :: "world \<Rightarrow> string \<Rightarrow> (rebel \<Rightarrow> rebel) \<Rightarrow> world" where
  "update_rebel w uid f =
     (case rebels w uid of None \<Rightarrow> w | Some r \<Rightarrow> w\<lparr>rebels := (rebels w)(uid \<mapsto> f r)\<rparr>)"

definition update_corporation :: "world \<Rightarrow> string \<Rightarrow> (corporation \<Rightarrow> corporation) \<Rightarrow> world" where
  "update_corporation w cid f =
     (case corporations w cid of
        None \<Rightarrow> w
      | Some c \<Rightarrow> w\<lparr>corporations := (corporations w)(cid \<mapsto> f c)\<rparr>)"

definition update_inventory :: "world \<Rightarrow> string \<Rightarrow> (inventory_rec \<Rightarrow> inventory_rec) \<Rightarrow> world" where
  "update_inventory w uid f =
     (case inventory w uid of
        None \<Rightarrow> w
      | Some i \<Rightarrow> w\<lparr>inventory := (inventory w)(uid \<mapsto> f i)\<rparr>)"

section \<open>Progression\<close>

text \<open>\<^verbatim>\<open>gainExperience(userId, amount)\<close>, src/index.js.\<close>

definition gainExperience :: "world \<Rightarrow> string \<Rightarrow> int \<Rightarrow> bool \<times> world" where
  "gainExperience w uid amount =
     (case rebels w uid of
        None \<Rightarrow> (False, w)
      | Some rebel \<Rightarrow>
          let r1 = rebel\<lparr>experience := experience rebel + amount\<rparr>;
              newLevel = experience r1 div 100 + 1
          in if newLevel > level r1 then
               let r2 = r1\<lparr>level := newLevel,
                          maxEnergy := 100 + (newLevel - 1) * 10,
                          energy := 100 + (newLevel - 1) * 10,
                          rstats := (rstats r1)
                            \<lparr>strength := strength (rstats r1) + 2,
                             intelligence := intelligence (rstats r1) + 2,
                             charisma := charisma (rstats r1) + 1,
                             stealth := stealth (rstats r1) + 1\<rparr>\<rparr>
               in (True, w\<lparr>rebels := (rebels w)(uid \<mapsto> r2)\<rparr>)
             else (False, w\<lparr>rebels := (rebels w)(uid \<mapsto> r1)\<rparr>))"

text \<open>
  \<^verbatim>\<open>calculateLevel(experience)\<close> of the rebel data-access layer, whose comment reads
  ``Level formula: level = floor(sqrt(experience / 100)) + 1'':
  \<^verbatim>\<open>Math.min(100, Math.floor(Math.sqrt(experience / 100)) + 1)\<close>.
  The square root of a negative number is \<^verbatim>\<open>NaN\<close>, and so is the result then
  (\<open>None\<close>).  \<open>floor (sqrt (e / 100))\<close> is the largest \<open>k\<close> with \<open>100 * k\<^sup>2 \<le> e\<close>.
\<close>

fun sqrt_upto :: "nat \<Rightarrow> nat \<Rightarrow> nat" where
  "sqrt_upto n 0 = 0"
| "sqrt_upto n (Suc k) = (if Suc k * Suc k \<le> n then Suc k else sqrt_upto n k)"

definition floor_sqrt :: "nat \<Rightarrow> nat" where
  "floor_sqrt n = sqrt_upto n n"

definition calculateLevel :: "int \<Rightarrow> int option" where
  "calculateLevel e =
     (if e < 0 then None
      else Some (min 100 (int (floor_sqrt (nat (e div 100))) + 1)))"

section \<open>Achievements\<close>

definition hasAchievement :: "world \<Rightarrow> string \<Rightarrow> string \<Rightarrow> bool" where
  "hasAchievement w uid aid =
     (case achievements w uid of None \<Rightarrow> False | Some unlocked \<Rightarrow> aid \<in> set unlocked)"

definition awardAchievement :: "world \<Rightarrow> string \<Rightarrow> string \<Rightarrow> bool \<times> world" where
  "awardAchievement w uid aid =
     (case (achievements w uid, map_of achievementTemplates aid) of
        (Some unlocked, Some points) \<Rightarrow>
          if aid \<in> set unlocked then (False, w)
          else
            let w1 = w\<lparr>achievements := (achievements w)(uid \<mapsto> unlocked @ [aid])\<rparr>
            in (True,
                case rebels w1 uid of
                  None \<Rightarrow> w1
                | Some rebel \<Rightarrow>
                    w1\<lparr>rebels := (rebels w1)
                          (uid \<mapsto> rebel\<lparr>loyaltyScore := loyaltyScore rebel + points\<rparr>)\<rparr>)
      | _ \<Rightarrow> (False, w))"

text \<open>
  One \<^verbatim>\<open>if (cond && !this.hasAchievement(...)) { award; push }\<close> of
  \<^verbatim>\<open>checkAchievements\<close>.  The rebel is one object, so each test reads the loyalty
  left by the awards before it.
\<close>

definition check_one ::
  "(rebel \<Rightarrow> bool) \<Rightarrow> string \<Rightarrow> string \<Rightarrow> world \<times> string list \<Rightarrow> world \<times> string list" where
  "check_one cond aid uid st =
     (case st of (w, new) \<Rightarrow>
        (case rebels w uid of
           None \<Rightarrow> (w, new)
         | Some rebel \<Rightarrow>
             if cond rebel \<and> \<not> hasAchievement w uid aid
             then (snd (awardAchievement w uid aid), new @ [aid])
             else (w, new)))"

definition checkAchievements :: "world \<Rightarrow> string \<Rightarrow> string list \<times> world" where
  "checkAchievements w uid =
     (case rebels w uid of
        None \<Rightarrow> ([], w)
      | Some _ \<Rightarrow>
          let s1 = check_one (\<lambda>r. corporateDamage r \<ge> 1000) ''damage_1k'' uid (w, []);
              s2 = check_one (\<lambda>r. corporateDamage r \<ge> 10000) ''damage_10k'' uid s1;
              s3 = check_one (\<lambda>r. corporateDamage r \<ge> 100000) ''damage_100k'' uid s2;
              s4 = check_one (\<lambda>r. loyaltyScore r \<ge> 100) ''loyalty_100'' uid s3;
              s5 = check_one (\<lambda>r. loyaltyScore r \<ge> 1000) ''loyalty_1k'' uid s4;
              s6 = check_one (\<lambda>r. loyaltyScore r \<ge> 10000) ''loyalty_10k'' uid s5;
              s7 = check_one (\<lambda>r. corporationsDefeated r \<ge> 5) ''all_corps_defeated'' uid s6
          in (snd s7, fst s7))"

section \<open>Inventory\<close>

text \<open>\<^verbatim>\<open>arr[Math.floor(r * arr.length)]\<close>; \<open>None\<close> is \<^verbatim>\<open>undefined\<close>.\<close>

definition pick :: "'a list \<Rightarrow> rat \<Rightarrow> 'a option" where
  "pick xs r =
     (let i = \<lfloor>r * of_nat (length xs)\<rfloor>
      in if 0 \<le> i \<and> i < int (length xs) then Some (xs ! nat i) else None)"

text \<open>\<^verbatim>\<open>s.includes(t)\<close>.\<close>

fun str_includes :: "string \<Rightarrow> string \<Rightarrow> bool" where
  "str_includes [] t = (t = [])"
| "str_includes (c # cs) t = (take (length t) (c # cs) = t \<or> str_includes cs t)"

definition getItemType :: "string \<Rightarrow> string" where
  "getItemType itemName =
     (if str_includes itemName ''Model'' \<or> str_includes itemName ''AI'' then ''ai_model''
      else if str_includes itemName ''Data'' \<or> str_includes itemName ''Information'' then ''data''
      else if str_includes itemName ''Tool'' \<or> str_includes itemName ''Software'' then ''tool''
      else if str_includes itemName ''Secret'' \<or> str_includes itemName ''Intel'' then ''intel''
      else ''resource'')"

definition getItemRarity :: "int \<Rightarrow> string" where
  "getItemRarity damage =
     (if damage > 500 then ''legendary''
      else if damage > 300 then ''epic''
      else if damage > 150 then ''rare''
      else if damage > 75 then ''uncommon''
      else ''common'')"

text \<open>
  The body of the loop of \<^verbatim>\<open>addLootToInventory\<close> after its capacity test, for
  index \<open>i\<close>.  \<^verbatim>\<open>damage > 200 && Math.random() < 0.15\<close> draws only when the damage is
  above 200.  A draw that selects nothing makes the next property read throw.
\<close>

definition addLoot_item ::
  "corporation \<Rightarrow> int \<Rightarrow> int \<Rightarrow> nat \<Rightarrow> inventory_rec \<Rightarrow> rng \<Rightarrow> (inventory_rec \<times> rng) completion" where
  "addLoot_item corp damage now i invt g =
     (let (isDefensiveItem, g1) =
            (if damage > 200 then (case draw g of (r, g') \<Rightarrow> (r < 15 / 100, g'))
             else (False, g))
      in if isDefensiveItem then
           (case draw g1 of (r, g2) \<Rightarrow>
              (case pick (map fst defensiveItems) r of
                 None \<Rightarrow> Throws (invt, g2)
               | Some randomDefenseType \<Rightarrow>
                   (case map_of defensiveItems randomDefenseType of
                      None \<Rightarrow> Throws (invt, g2)
                    | Some d \<Rightarrow>
                        Normal (invt\<lparr>items := items invt @
                                  [\<lparr>item_id = Stamp_Index now i,
                                    item_name = d_name d,
                                    item_type = randomDefenseType,
                                    rarity = d_rarity d,
                                    item_value = \<lfloor>of_int (cost d) * (8 / 10 :: rat)\<rfloor>,
                                    acquiredFrom = corp_name corp,
                                    acquiredAt = now,
                                    activatedAt = None\<rparr>]\<rparr>, g2))))
         else
           (case draw g1 of (r, g2) \<Rightarrow>
              (case draw g2 of (rid, g3) \<Rightarrow>
                 (case pick (loot corp) r of
                    None \<Rightarrow> Throws (invt, g3)
                  | Some randomItem \<Rightarrow>
                      (case draw g3 of (rv, g4) \<Rightarrow>
                         Normal (invt\<lparr>items := items invt @
                                   [\<lparr>item_id = ITM now rid,
                                     item_name = randomItem,
                                     item_type = getItemType randomItem,
                                     rarity = getItemRarity damage,
                                     item_value = damage div 10 + \<lfloor>rv * 50\<rfloor>,
                                     acquiredFrom = corp_name corp,
                                     acquiredAt = now,
                                     activatedAt = None\<rparr>]\<rparr>, g4))))))"

fun addLoot_loop ::
  "corporation \<Rightarrow> int \<Rightarrow> int \<Rightarrow> nat list \<Rightarrow> inventory_rec \<Rightarrow> rng \<Rightarrow> (inventory_rec \<times> rng) completion" where
  "addLoot_loop corp damage now [] invt g = Normal (invt, g)"
| "addLoot_loop corp damage now (i # rest) invt g =
     (if int (length (items invt)) \<ge> capacity invt then Normal (invt, g)
      else (case addLoot_item corp damage now i invt g of
              Throws s \<Rightarrow> Throws s
            | Normal (invt', g') \<Rightarrow> addLoot_loop corp damage now rest invt' g'))"

text \<open>\<^verbatim>\<open>addLootToInventory(userId, corporation, damage)\<close>.\<close>

definition addLootToInventory ::
  "world \<Rightarrow> rng \<Rightarrow> int \<Rightarrow> string \<Rightarrow> corporation \<Rightarrow> int \<Rightarrow> (world \<times> rng) completion" where
  "addLootToInventory w g now uid corp damage =
     (case inventory w uid of
        None \<Rightarrow> Normal (w, g)
      | Some invt \<Rightarrow>
          let numItems = min 3 (damage div 100 + 1)
          in (case addLoot_loop corp damage now [0..<nat numItems] invt g of
                Throws (invt', g') \<Rightarrow> Throws (w\<lparr>inventory := (inventory w)(uid \<mapsto> invt')\<rparr>, g')
              | Normal (invt', g') \<Rightarrow>
                  Normal (w\<lparr>inventory := (inventory w)
                             (uid \<mapsto> invt'\<lparr>credits := credits invt' + damage div 5\<rparr>)\<rparr>, g')))"

section \<open>Corporate countermeasures\<close>

definition getCountermeasurePower :: "countermeasure \<Rightarrow> int" where
  "getCountermeasurePower cm =
     (if severity cm = ''high'' then 80 else if severity cm = ''medium'' then 50 else 25)"

text \<open>
  \<^verbatim>\<open>getRebelProtection(userId)\<close>: the highest protection among the active defensive
  items, \<open>None\<close> for \<^verbatim>\<open>null\<close>.  \<^verbatim>\<open>item.activatedAt && ...\<close> is false for
  \<^verbatim>\<open>null\<close> and for 0.
\<close>

definition getRebelProtection :: "world \<Rightarrow> int \<Rightarrow> string \<Rightarrow> int option" where
  "getRebelProtection w now uid =
     (case inventory w uid of
        None \<Rightarrow> None
      | Some invt \<Rightarrow>
          let activeDefenses =
                filter (\<lambda>it. case map_of defensiveItems (item_type it) of
                                None \<Rightarrow> False
                              | Some d \<Rightarrow>
                                  (case activatedAt it of
                                     None \<Rightarrow> False
                                   | Some t \<Rightarrow> t \<noteq> 0 \<and> now - t < d_duration d))
                       (items invt)
          in if activeDefenses = [] then None
             else Some (Max (set (map (\<lambda>it. case map_of defensiveItems (item_type it) of
                                                Some d \<Rightarrow> protection d | None \<Rightarrow> 0)
                                      activeDefenses))))"

text \<open>
  \<^verbatim>\<open>applyCountermeasureEffects(rebel, countermeasure)\<close>: the new world and the
  \<^verbatim>\<open>blocked\<close> flag it leaves on the countermeasure.
\<close>

definition applyCountermeasureEffects ::
  "world \<Rightarrow> int \<Rightarrow> string \<Rightarrow> countermeasure \<Rightarrow> world \<times> bool" where
  "applyCountermeasureEffects w now uid cm =
     (if (case getRebelProtection w now uid of
            None \<Rightarrow> False
          | Some lvl \<Rightarrow> lvl \<ge> getCountermeasurePower cm)
      then (w, True)
      else if effect cm = ''energy_drain'' then
        (let energyLoss = (if severity cm = ''high'' then 30
                           else if severity cm = ''medium'' then 20 else 10)
         in case rebels w uid of
              None \<Rightarrow> (w, False)
            | Some rebel \<Rightarrow>
                (w\<lparr>rebels := (rebels w)
                     (uid \<mapsto> rebel\<lparr>energy := max 0 (energy rebel - energyLoss)\<rparr>)\<rparr>, False))
      else if effect cm = ''credit_loss'' then
        (case inventory w uid of
           None \<Rightarrow> (w, False)
         | Some invt \<Rightarrow>
             let creditLoss = (if severity cm = ''high'' then 200
                               else if severity cm = ''medium'' then 100 else 50)
             in (w\<lparr>inventory := (inventory w)
                      (uid \<mapsto> invt\<lparr>credits := max 0 (credits invt - creditLoss)\<rparr>)\<rparr>, False))
      else if effect cm = ''loyalty_reduction'' then
        (let loyaltyLoss = (if severity cm = ''high'' then 50
                            else if severity cm = ''medium'' then 25 else 10)
         in case rebels w uid of
              None \<Rightarrow> (w, False)
            | Some rebel \<Rightarrow>
                (w\<lparr>rebels := (rebels w)
                     (uid \<mapsto> rebel\<lparr>loyaltyScore := max 0 (loyaltyScore rebel - loyaltyLoss)\<rparr>)\<rparr>,
                 False))
      else (w, False))"

text \<open>
  \<^verbatim>\<open>activateCountermeasure(targetCorp, rebel)\<close>: one draw selects the archetype, one
  goes into the identifier; the record is pushed on the corporation's active list and its
  effect applied at once.
\<close>

definition activateCountermeasure ::
  "world \<Rightarrow> rng \<Rightarrow> int \<Rightarrow> string \<Rightarrow> string \<Rightarrow> (world \<times> rng) completion" where
  "activateCountermeasure w g now targetCorp uid =
     (case corporations w targetCorp of
        None \<Rightarrow> Normal (w, g)
      | Some corp \<Rightarrow>
          (case draw g of (r1, g1) \<Rightarrow>
             (case draw g1 of (r2, g2) \<Rightarrow>
                (case pick (map fst countermeasureTypes) r1 of
                   None \<Rightarrow> Throws (w, g2)
                 | Some selectedType \<Rightarrow>
                     (case map_of countermeasureTypes selectedType of
                        None \<Rightarrow> Throws (w, g2)
                      | Some ct \<Rightarrow>
                          let cm = \<lparr>cm_id = Stamp_Rand now r2,
                                    cm_type = selectedType,
                                    cm_target = uid,
                                    cm_corporation = targetCorp,
                                    startTime = now,
                                    endTime = now + ct_duration ct,
                                    severity = ct_severity ct,
                                    effect = ct_effect ct,
                                    blocked = False\<rparr>;
                              (w1, blk) = applyCountermeasureEffects w now uid cm;
                              corp1 = corp\<lparr>cm_active := cm_active corp @ [cm\<lparr>blocked := blk\<rparr>],
                                          lastActivated := Some now\<rparr>
                          in Normal (w1\<lparr>corporations := (corporations w1)(targetCorp \<mapsto> corp1)\<rparr>,
                                     g2))))))"

text \<open>\<^verbatim>\<open>checkCountermeasureActivation(targetCorp, rebel, damage)\<close>.\<close>

definition checkCountermeasureActivation ::
  "world \<Rightarrow> rng \<Rightarrow> int \<Rightarrow> string \<Rightarrow> string \<Rightarrow> rat \<Rightarrow> (world \<times> rng) completion" where
  "checkCountermeasureActivation w g now targetCorp uid damage =
     (case corporations w targetCorp of
        None \<Rightarrow> Normal (w, g)
      | Some corp \<Rightarrow>
          let activationChance = alertLevel corp * 15
          in (case draw g of (randomRoll, g1) \<Rightarrow>
                (case (if randomRoll * 100 < of_int activationChance
                       then activateCountermeasure w g1 now targetCorp uid
                       else Normal (w, g1)) of
                   Throws s \<Rightarrow> Throws s
                 | Normal (w1, g2) \<Rightarrow>
                     if damage > 300 then
                       (let immediateChance = min 80 (damage / 5)
                        in case draw g2 of (r, g3) \<Rightarrow>
                             if r * 100 < immediateChance
                             then activateCountermeasure w1 g3 now targetCorp uid
                             else Normal (w1, g3))
                     else Normal (w1, g2))))"

text \<open>\<^verbatim>\<open>processCorporateResponse(targetCorp, rebel, damage)\<close>.\<close>

definition processCorporateResponse ::
  "world \<Rightarrow> rng \<Rightarrow> int \<Rightarrow> string \<Rightarrow> string \<Rightarrow> rat \<Rightarrow> (world \<times> rng) completion" where
  "processCorporateResponse w g now targetCorp uid damage =
     (case corporations w targetCorp of
        None \<Rightarrow> Normal (w, g)
      | Some corp \<Rightarrow>
          let currentThreat = (case threatAssessment corp uid of Some t \<Rightarrow> t | None \<Rightarrow> 0);
              alertIncrease = \<lfloor>damage / 200\<rfloor>;
              corp1 = corp\<lparr>knownRebels := insert uid (knownRebels corp),
                          threatAssessment := (threatAssessment corp)(uid \<mapsto> currentThreat + damage),
                          alertLevel := min 5 (alertLevel corp + alertIncrease)\<rparr>
          in checkCountermeasureActivation
               (w\<lparr>corporations := (corporations w)(targetCorp \<mapsto> corp1)\<rparr>)
               g now targetCorp uid damage)"

section \<open>The solo raid\<close>

datatype raid_reply =
    NotEnlisted                 \<comment> \<open>``You must join the rebellion first''\<close>
  | NotEnoughEnergy             \<comment> \<open>``Not enough energy for a raid''\<close>
  | InvalidTarget               \<comment> \<open>``Invalid corporate target''\<close>
  | RaidResult int bool bool    \<comment> \<open>damage dealt, corporation defeated, levelled up\<close>
  | RaidError                   \<comment> \<open>an exception left the handler\<close>

text \<open>
  \<^verbatim>\<open>executeRaid(interaction, targetCorp, rebel)\<close>, with the rebel object given by its
  key.  All mutations happen between the corporation lookup and the first
  \<^verbatim>\<open>await\<close> of the reply.  \<^verbatim>\<open>updateEventParticipation\<close> writes only
  \<^verbatim>\<open>globalEvents\<close>, which nothing modelled here reads, and is left out.
\<close>

definition executeRaid :: "world \<Rightarrow> rng \<Rightarrow> int \<Rightarrow> string \<Rightarrow> string \<Rightarrow> raid_reply \<times> world" where
  "executeRaid w g now targetCorp uid =
     (case (corporations w targetCorp, rebels w uid) of
        (None, _) \<Rightarrow> (InvalidTarget, w)
      | (_, None) \<Rightarrow> (RaidError, w)
      | (Some corporation, Some rebel) \<Rightarrow>
          (case draw g of (u, g1) \<Rightarrow>
             let damage = calculateDamage rebel;
                 actualDamage = \<lfloor>of_int damage * (8 / 10 + u * (4 / 10))\<rfloor>;
                 w1 = update_corporation w targetCorp
                        (\<lambda>c. c\<lparr>health := max 0 (health c - actualDamage)\<rparr>);
                 w2 = update_rebel w1 uid
                        (\<lambda>r. r\<lparr>energy := energy r - 25,
                                corporateDamage := corporateDamage r + actualDamage,
                                loyaltyScore := loyaltyScore r + actualDamage div 10,
                                totalRaids := totalRaids r + 1,
                                lastActive := now\<rparr>);
                 expGained = actualDamage div 20 + 10;
                 (leveledUp, w3) = gainExperience w2 uid expGained;
                 isDefeated = (max 0 (health corporation - actualDamage) \<le> 0);
                 w4 = (if isDefeated then
                         (let w3a = update_corporation w3 targetCorp
                                      (\<lambda>c. c\<lparr>health := maxHealth c\<rparr>);
                              w3b = update_rebel w3a uid
                                      (\<lambda>r. r\<lparr>loyaltyScore := loyaltyScore r + 100,
                                              corporationsDefeated := corporationsDefeated r + 1\<rparr>);
                              w3c = (if totalRaids rebel + 1 = 1
                                     then snd (awardAchievement w3b uid ''first_raid'')
                                     else w3b)
                          in snd (awardAchievement w3c uid ''first_victory''))
                       else w3);
                 corporation' = (case corporations w4 targetCorp of
                                   Some c \<Rightarrow> c | None \<Rightarrow> corporation)
             in (case addLootToInventory w4 g1 now uid corporation' actualDamage of
                   Throws (w5, _) \<Rightarrow> (RaidError, w5)
                 | Normal (w5, g2) \<Rightarrow>
                     (case checkAchievements w5 uid of (newAchievements, w6) \<Rightarrow>
                        (case processCorporateResponse w6 g2 now targetCorp uid
                                (of_int actualDamage) of
                           Throws (w7, _) \<Rightarrow> (RaidError, w7)
                         | Normal (w7, _) \<Rightarrow>
                             (RaidResult actualDamage isDefeated leveledUp, w7))))))"


section \<open>The defence shop\<close>

datatype shop_reply =
    InventoryNotFound
  | InvalidDefensiveItem
  | NotEnoughCredits int int
  | InventoryFull
  | Purchased

text \<open>
  \<^verbatim>\<open>handleBuyDefensiveItem(interaction)\<close>; \<open>itemType\<close> is the button's custom id
  without its \<^verbatim>\<open>buy_\<close> prefix.
\<close>

definition handleBuyDefensiveItem ::
  "world \<Rightarrow> rng \<Rightarrow> int \<Rightarrow> string \<Rightarrow> string \<Rightarrow> shop_reply \<times> world" where
  "handleBuyDefensiveItem w g now itemType uid =
     (case inventory w uid of
        None \<Rightarrow> (InventoryNotFound, w)
      | Some invt \<Rightarrow>
          (case map_of defensiveItems itemType of
             None \<Rightarrow> (InvalidDefensiveItem, w)
           | Some d \<Rightarrow>
               if credits invt < cost d then (NotEnoughCredits (cost d) (credits invt), w)
               else if int (length (items invt)) \<ge> capacity invt then (InventoryFull, w)
               else
                 (case draw g of (r, _) \<Rightarrow>
                    let newItem = \<lparr>item_id = Stamp_Rand now r,
                                     item_name = d_name d,
                                     item_type = itemType,
                                     rarity = d_rarity d,
                                     item_value = cost d,
                                     acquiredFrom = ''Defense Shop'',
                                     acquiredAt = now,
                                     activatedAt = None\<rparr>
                    in (Purchased,
                        w\<lparr>inventory := (inventory w)
                            (uid \<mapsto> invt\<lparr>credits := credits invt - cost d,
                                          items := items invt @ [newItem]\<rparr>)\<rparr>))))"

section \<open>Team raids\<close>

text \<open>The size of the \<^verbatim>\<open>readyMembers\<close> set.\<close>

definition set_size :: "string list \<Rightarrow> nat" where
  "set_size xs = length (remdups xs)"

datatype ready_reply = ReadyPartyNotFound | NotAMember | NoLongerReady | NowReady nat nat

text \<open>\<^verbatim>\<open>handleReadyForRaid\<close>: a member toggles its own readiness.\<close>

definition handleReadyForRaid :: "world \<Rightarrow> string \<Rightarrow> string \<Rightarrow> ready_reply \<times> world" where
  "handleReadyForRaid w partyId uid =
     (case raidParties w partyId of
        None \<Rightarrow> (ReadyPartyNotFound, w)
      | Some raidParty \<Rightarrow>
          if uid \<notin> set (members raidParty) then (NotAMember, w)
          else if uid \<in> set (readyMembers raidParty) then
            (NoLongerReady,
             w\<lparr>raidParties := (raidParties w)
                 (partyId \<mapsto> raidParty\<lparr>readyMembers := removeAll uid (readyMembers raidParty)\<rparr>)\<rparr>)
          else
            (let p1 = raidParty\<lparr>readyMembers := readyMembers raidParty @ [uid]\<rparr>
             in (NowReady (set_size (readyMembers p1)) (length (members p1)),
                 w\<lparr>raidParties := (raidParties w)(partyId \<mapsto> p1)\<rparr>)))"

text \<open>
  \<^verbatim>\<open>generateTeamLoot(raidParty, totalDamage)\<close>.  The item loop: one draw picks the
  loot name, one goes into the identifier, one into the value.
\<close>

fun teamLoot_loop ::
  "corporation option \<Rightarrow> int \<Rightarrow> nat \<Rightarrow> int \<Rightarrow> nat \<Rightarrow> item list \<Rightarrow> rng \<Rightarrow> (item list \<times> rng) completion" where
  "teamLoot_loop copt totalDamage n now 0 acc g = Normal (acc, g)"
| "teamLoot_loop copt totalDamage n now (Suc k) acc g =
     (case copt of
        None \<Rightarrow> Throws (acc, g)
      | Some corporation \<Rightarrow>
          (case draw g of (r, g1) \<Rightarrow>
             (case draw g1 of (rid, g2) \<Rightarrow>
                (case pick (loot corporation) r of
                   None \<Rightarrow> Throws (acc, g2)
                 | Some randomItem \<Rightarrow>
                     (case draw g2 of (rv, g3) \<Rightarrow>
                        teamLoot_loop copt totalDamage n now k
                          (acc @ [\<lparr>item_id = ITM now rid,
                                   item_name = randomItem,
                                   item_type = getItemType randomItem,
                                   rarity = getItemRarity totalDamage,
                                   item_value =
                                     \<lfloor>(of_int totalDamage / of_nat n :: rat) / 8\<rfloor> + \<lfloor>rv * 50\<rfloor>,
                                   acquiredFrom = ''Team Raid - '' @ corp_name corporation,
                                   acquiredAt = now,
                                   activatedAt = None\<rparr>]) g3)))))"

definition generateTeamLoot ::
  "world \<Rightarrow> rng \<Rightarrow> int \<Rightarrow> raid_party \<Rightarrow> int \<Rightarrow> (team_loot \<times> rng) completion" where
  "generateTeamLoot w g now raidParty totalDamage =
     (case map_of formations (formation raidParty) of
        None \<Rightarrow> Throws (\<lparr>tl_credits = 0, tl_items = []\<rparr>, g)
      | Some fm \<Rightarrow>
          let lootMultiplier = (case lootBonus fm of
                                  None \<Rightarrow> 1 | Some b \<Rightarrow> if b = 0 then 1 else b);
              crd = \<lfloor>(of_int totalDamage / 3) * lootMultiplier\<rfloor>;
              n = length (members raidParty);
              itemCount = min (int n * 2) (totalDamage div 150)
          in (case teamLoot_loop (corporations w (target raidParty)) totalDamage n now
                     (nat itemCount) [] g of
                Throws (its, g') \<Rightarrow> Throws (\<lparr>tl_credits = crd, tl_items = its\<rparr>, g')
              | Normal (its, g') \<Rightarrow> Normal (\<lparr>tl_credits = crd, tl_items = its\<rparr>, g')))"

text \<open>
  \<^verbatim>\<open>distributeTeamLoot(raidParty, teamLoot)\<close>: credits evenly, items round-robin; an
  item whose turn falls on a full inventory is not pushed.
\<close>

definition give_items :: "nat \<Rightarrow> nat \<Rightarrow> item list \<Rightarrow> inventory_rec \<Rightarrow> inventory_rec" where
  "give_items n index its invt =
     fold (\<lambda>(itemIndex, it) iv.
             if itemIndex mod n = index then
               (if int (length (items iv)) < capacity iv
                then iv\<lparr>items := items iv @ [it]\<rparr> else iv)
             else iv)
          (enumerate 0 its) invt"

definition distributeTeamLoot :: "world \<Rightarrow> raid_party \<Rightarrow> team_loot \<Rightarrow> world" where
  "distributeTeamLoot w raidParty teamLoot =
     (let n = length (members raidParty);
          creditsPerMember = tl_credits teamLoot div int n
      in fold (\<lambda>(index, memberId) w'.
                 update_inventory w' memberId
                   (\<lambda>invt. give_items n index (tl_items teamLoot)
                              (invt\<lparr>credits := credits invt + creditsPerMember\<rparr>)))
              (enumerate 0 (members raidParty)) w)"

text \<open>
  The member loop of \<^verbatim>\<open>executeCoordinatedRaid\<close>: a member without a rebel record is
  skipped; reading \<^verbatim>\<open>formation.damageBonus\<close> of an unknown formation throws.
\<close>

fun member_loop ::
  "formation_rec option \<Rightarrow> string list \<Rightarrow> world \<Rightarrow> rng \<Rightarrow> int \<Rightarrow> member_result list \<Rightarrow>
     (world \<times> rng \<times> int \<times> member_result list) completion" where
  "member_loop fopt [] w g totalDamage memberResults = Normal (w, g, totalDamage, memberResults)"
| "member_loop fopt (memberId # rest) w g totalDamage memberResults =
     (case rebels w memberId of
        None \<Rightarrow> member_loop fopt rest w g totalDamage memberResults
      | Some member \<Rightarrow>
          (case draw g of (r, g1) \<Rightarrow>
             (case fopt of
                None \<Rightarrow> Throws (w, g1, totalDamage, memberResults)
              | Some fm \<Rightarrow>
                  let baseDamage = \<lfloor>r * 200\<rfloor> + 100;
                      formationDamage = \<lfloor>of_int baseDamage * damageBonus fm\<rfloor>;
                      finalDamage = \<lfloor>of_int formationDamage *
                                      (1 + of_int (loyaltyScore member) / 1000 :: rat)\<rfloor>;
                      energyCost' = \<lfloor>30 * energyCost fm\<rfloor>;
                      w1 = update_rebel w memberId
                             (\<lambda>m. m\<lparr>energy := max 0 (energy m - energyCost')\<rparr>)
                  in member_loop fopt rest w1 g1 (totalDamage + finalDamage)
                       (memberResults @
                          [\<lparr>mr_member = memberId, mr_damage = finalDamage,
                            mr_energyUsed = energyCost'\<rparr>]))))"

text \<open>The countermeasure pass over the members.\<close>

fun response_loop ::
  "string \<Rightarrow> rat \<Rightarrow> int \<Rightarrow> string list \<Rightarrow> world \<Rightarrow> rng \<Rightarrow> (world \<times> rng) completion" where
  "response_loop tgt dmg now [] w g = Normal (w, g)"
| "response_loop tgt dmg now (memberId # rest) w g =
     (case rebels w memberId of
        None \<Rightarrow> response_loop tgt dmg now rest w g
      | Some member \<Rightarrow>
          (case processCorporateResponse w g now tgt memberId dmg of
             Throws s \<Rightarrow> Throws s
           | Normal (w1, g1) \<Rightarrow> response_loop tgt dmg now rest w1 g1))"

datatype team_reply =
    PartyNotFound                 \<comment> \<open>``Raid party not found!''\<close>
  | OnlyLeaderCanExecute          \<comment> \<open>``Only the raid party leader can execute the raid!''\<close>
  | NotAllMembersReady nat nat    \<comment> \<open>``Not all members are ready! r/m ready.''\<close>
  | CoordinatedRaidSuccessful int \<comment> \<open>the total damage\<close>
  | TeamRaidError                 \<comment> \<open>an exception left the handler\<close>

text \<open>
  \<^verbatim>\<open>executeCoordinatedRaid(raidParty, interaction)\<close>, the party given by its key.
  The removal of the party five minutes later is a separate timer event.
\<close>

definition executeCoordinatedRaid ::
  "world \<Rightarrow> rng \<Rightarrow> int \<Rightarrow> string \<Rightarrow> raid_party \<Rightarrow> team_reply \<times> world" where
  "executeCoordinatedRaid w g now partyId raidParty =
     (let fopt = map_of formations (formation raidParty)
      in case member_loop fopt (members raidParty) w g 0 [] of
           Throws (w1, _) \<Rightarrow> (TeamRaidError, w1)
         | Normal (w1, g1, totalDamage, memberResults) \<Rightarrow>
             (case corporations w1 (target raidParty) of
                None \<Rightarrow> (TeamRaidError, w1)
              | Some corporation \<Rightarrow>
                  let w2 = update_corporation w1 (target raidParty)
                             (\<lambda>c. c\<lparr>health := max 0 (health c - totalDamage)\<rparr>)
                  in (case generateTeamLoot w2 g1 now raidParty totalDamage of
                        Throws _ \<Rightarrow> (TeamRaidError, w2)
                      | Normal (teamLoot, g2) \<Rightarrow>
                          let w3 = distributeTeamLoot w2 raidParty teamLoot;
                              stealthBonus' = (case fopt of
                                                 None \<Rightarrow> 0
                                               | Some fm \<Rightarrow>
                                                   (case stealthBonus fm of
                                                      None \<Rightarrow> 0 | Some b \<Rightarrow> b))
                          in (case draw g2 of (r, g3) \<Rightarrow>
                                (case (if r > stealthBonus'
                                       then response_loop (target raidParty)
                                              (of_int totalDamage /
                                                 of_nat (length (members raidParty)))
                                              now (members raidParty) w3 g3
                                       else Normal (w3, g3)) of
                                   Throws (w4, _) \<Rightarrow> (TeamRaidError, w4)
                                 | Normal (w4, _) \<Rightarrow>
                                     (CoordinatedRaidSuccessful totalDamage,
                                      w4\<lparr>raidParties := (raidParties w4)
                                          (partyId \<mapsto> raidParty
                                             \<lparr>state := ''completed'',
                                              results := Some
                                                \<lparr>res_totalDamage = totalDamage,
                                                 res_memberResults = memberResults,
                                                 res_loot = teamLoot,
                                                 res_timestamp = now\<rparr>\<rparr>)\<rparr>))))))"

text \<open>\<^verbatim>\<open>handleExecuteTeamRaid(interaction)\<close>.\<close>

definition handleExecuteTeamRaid ::
  "world \<Rightarrow> rng \<Rightarrow> int \<Rightarrow> string \<Rightarrow> string \<Rightarrow> team_reply \<times> world" where
  "handleExecuteTeamRaid w g now partyId uid =
     (case raidParties w partyId of
        None \<Rightarrow> (PartyNotFound, w)
      | Some raidParty \<Rightarrow>
          if leader raidParty \<noteq> uid then (OnlyLeaderCanExecute, w)
          else if set_size (readyMembers raidParty) < length (members raidParty) then
            (NotAllMembersReady (set_size (readyMembers raidParty)) (length (members raidParty)), w)
          else executeCoordinatedRaid w g now partyId raidParty)"

section \<open>Market maintenance sweeps\<close>

text \<open>
  \<^verbatim>\<open>cleanupExpiredListings()\<close>: every listing whose expiry time has come is deleted
  from the marketplace; its item is pushed on the seller's inventory when that inventory
  exists and has room.
\<close>

definition expire_listing :: "int \<Rightarrow> string \<times> listing \<Rightarrow> world \<Rightarrow> world" where
  "expire_listing now e w =
     (case e of (listingId, lst) \<Rightarrow>
        if l_expiresAt lst \<le> now then
          (let w1 = (case inventory w (l_sellerId lst) of
                       None \<Rightarrow> w
                     | Some sellerInventory \<Rightarrow>
                         if int (length (items sellerInventory)) < capacity sellerInventory
                         then update_inventory w (l_sellerId lst)
                                (\<lambda>i. i\<lparr>items := items i @ [l_item lst]\<rparr>)
                         else w)
           in w1\<lparr>marketplace := filter (\<lambda>(k, _). k \<noteq> listingId) (marketplace w1)\<rparr>)
        else w)"

definition cleanupExpiredListings :: "world \<Rightarrow> int \<Rightarrow> world" where
  "cleanupExpiredListings w now = fold (expire_listing now) (marketplace w) w"

text \<open>
  \<^verbatim>\<open>auction.currentBid > auction.startingBid && auction.currentBidder\<close>: the bidder
  counts when it is neither \<^verbatim>\<open>null\<close> nor the empty string.
\<close>

definition winning_bidder :: "auction \<Rightarrow> string option" where
  "winning_bidder a =
     (case currentBidder a of
        None \<Rightarrow> None
      | Some b \<Rightarrow> if currentBid a > startingBid a \<and> b \<noteq> [] then Some b else None)"

text \<open>
  The body of the loop of \<^verbatim>\<open>processAuctionTimers()\<close> for one auction, on the
  inventories as the auctions before it left them.  \<^verbatim>\<open>Math.floor(bid * 0.1)\<close> on an
  integer bid is \<open>bid div 10\<close>.
\<close>

definition settle_auction ::
  "int \<Rightarrow> (string \<rightharpoonup> inventory_rec) \<Rightarrow> auction \<Rightarrow> (string \<rightharpoonup> inventory_rec) \<times> auction" where
  "settle_auction now invs a =
     (if a_status a = ''active'' \<and> a_endTime a \<le> now then
        (case winning_bidder a of
           Some bidder \<Rightarrow>
             (case invs bidder of
                None \<Rightarrow> (invs, a)
              | Some winnerInventory \<Rightarrow>
                  if int (length (items winnerInventory)) < capacity winnerInventory then
                    (let invs1 = invs(bidder \<mapsto>
                                   winnerInventory\<lparr>items := items winnerInventory @ [a_item a]\<rparr>);
                         invs2 = (case invs1 (a_sellerId a) of
                                    None \<Rightarrow> invs1
                                  | Some sellerInventory \<Rightarrow>
                                      let houseFee = currentBid a div 10;
                                          sellerAmount = currentBid a - houseFee
                                      in invs1(a_sellerId a \<mapsto>
                                           sellerInventory
                                             \<lparr>credits := credits sellerInventory + sellerAmount\<rparr>))
                     in (invs2, a\<lparr>a_status := ''completed'', winner := Some bidder\<rparr>))
                  else (invs, a))
         | None \<Rightarrow>
             (let invs1 = (case invs (a_sellerId a) of
                             None \<Rightarrow> invs
                           | Some sellerInventory \<Rightarrow>
                               if int (length (items sellerInventory)) < capacity sellerInventory
                               then invs(a_sellerId a \<mapsto>
                                      sellerInventory
                                        \<lparr>items := items sellerInventory @ [a_item a]\<rparr>)
                               else invs)
              in (invs1, a\<lparr>a_status := ''expired''\<rparr>)))
      else (invs, a))"

fun auction_loop ::
  "int \<Rightarrow> (string \<times> auction) list \<Rightarrow> (string \<rightharpoonup> inventory_rec) \<Rightarrow>
     (string \<times> auction) list \<times> (string \<rightharpoonup> inventory_rec)" where
  "auction_loop now [] invs = ([], invs)"
| "auction_loop now ((auctionId, a) # rest) invs =
     (case settle_auction now invs a of (invs1, a1) \<Rightarrow>
        (case auction_loop now rest invs1 of (rest', invs2) \<Rightarrow>
           ((auctionId, a1) # rest', invs2)))"

definition processAuctionTimers :: "world \<Rightarrow> int \<Rightarrow> world" where
  "processAuctionTimers w now =
     (case auction_loop now (auctions w) (inventory w) of
        (as, invs) \<Rightarrow> w\<lparr>auctions := as, inventory := invs\<rparr>)"

section \<open>Snapshots\<close>

text \<open>
  \<^verbatim>\<open>createBackup\<close> and \<^verbatim>\<open>loadBackup\<close> look into no entity: they pass whole maps
  through \<^verbatim>\<open>JSON.stringify\<close> and \<^verbatim>\<open>JSON.parse\<close>.  So this part works on
  JavaScript values as such.
\<close>

datatype jsval =
    JUndefined
  | JNull
  | JBool bool
  | JNum rat
  | JNonFinite                      \<comment> \<open>\<^verbatim>\<open>NaN\<close>, \<^verbatim>\<open>Infinity\<close>, \<^verbatim>\<open>-Infinity\<close>\<close>
  | JStr string
  | JDate int
  | JArr "jsval list"
  | JObj "(string \<times> jsval) list"    \<comment> \<open>a plain object, own properties in order\<close>
  | JMap "(jsval \<times> jsval) list"     \<comment> \<open>a \<^verbatim>\<open>Map\<close>\<close>
  | JSet "jsval list"               \<comment> \<open>a \<^verbatim>\<open>Set\<close>\<close>

definition undefined_to_null :: "jsval \<Rightarrow> jsval" where
  "undefined_to_null v = (case v of JUndefined \<Rightarrow> JNull | _ \<Rightarrow> v)"

definition is_defined :: "string \<times> jsval \<Rightarrow> bool" where
  "is_defined kv = (case snd kv of JUndefined \<Rightarrow> False | _ \<Rightarrow> True)"

text \<open>
  \<^verbatim>\<open>JSON.parse(JSON.stringify(v))\<close>, with \<open>toISO\<close> for \<^verbatim>\<open>Date.prototype.toISOString\<close>:
  a date becomes a string, a non-finite number \<^verbatim>\<open>null\<close>, a \<^verbatim>\<open>Map\<close> or
  \<^verbatim>\<open>Set\<close> (no enumerable own property) the empty object; an \<^verbatim>\<open>undefined\<close>
  array element becomes \<^verbatim>\<open>null\<close>, an \<^verbatim>\<open>undefined\<close> property is dropped.
\<close>

primrec json_roundtrip :: "(int \<Rightarrow> string) \<Rightarrow> jsval \<Rightarrow> jsval" where
  "json_roundtrip toISO JUndefined = JUndefined"
| "json_roundtrip toISO JNull = JNull"
| "json_roundtrip toISO (JBool b) = JBool b"
| "json_roundtrip toISO (JNum x) = JNum x"
| "json_roundtrip toISO JNonFinite = JNull"
| "json_roundtrip toISO (JStr s) = JStr s"
| "json_roundtrip toISO (JDate t) = JStr (toISO t)"
| "json_roundtrip toISO (JArr vs) = JArr (map undefined_to_null (map (json_roundtrip toISO) vs))"
| "json_roundtrip toISO (JObj kvs) =
     JObj (filter is_defined (map (map_prod id (json_roundtrip toISO)) kvs))"
| "json_roundtrip toISO (JMap kvs) = JObj []"
| "json_roundtrip toISO (JSet vs) = JObj []"

text \<open>
  The thirteen maps that a backup holds, each a \<^verbatim>\<open>Map\<close> from string keys, in
  insertion order.
\<close>

record game_maps =
  g_rebels :: "(string \<times> jsval) list"
  g_corporations :: "(string \<times> jsval) list"
  g_inventory :: "(string \<times> jsval) list"
  g_achievements :: "(string \<times> jsval) list"
  g_activeTrades :: "(string \<times> jsval) list"
  g_marketplace :: "(string \<times> jsval) list"
  g_auctions :: "(string \<times> jsval) list"
  g_dailyMissions :: "(string \<times> jsval) list"
  g_globalEvents :: "(string \<times> jsval) list"
  g_raidParties :: "(string \<times> jsval) list"
  g_resistanceCells :: "(string \<times> jsval) list"
  g_leaderboard :: "(string \<times> jsval) list"
  g_cooldowns :: "(string \<times> jsval) list"

text \<open>
  The order of the own properties of an object: keys that are array indices (canonical
  decimal numerals below \<open>2\<^sup>3\<^sup>2 - 1\<close>) first, ascending, then the other keys as inserted.
\<close>

definition digit_of :: "char \<Rightarrow> nat option" where
  "digit_of c =
     (let n = (of_char c :: nat) in if 48 \<le> n \<and> n \<le> 57 then Some (n - 48) else None)"

fun digits_value :: "nat \<Rightarrow> string \<Rightarrow> nat option" where
  "digits_value acc [] = Some acc"
| "digits_value acc (c # cs) =
     (case digit_of c of None \<Rightarrow> None | Some d \<Rightarrow> digits_value (acc * 10 + d) cs)"

definition array_index :: "string \<Rightarrow> nat option" where
  "array_index k =
     (case k of
        [] \<Rightarrow> None
      | c # cs \<Rightarrow>
          if c = CHR ''0'' \<and> cs \<noteq> [] then None
          else (case digits_value 0 k of
                  None \<Rightarrow> None
                | Some n \<Rightarrow> if n < 4294967295 then Some n else None))"

definition index_key :: "string \<times> jsval \<Rightarrow> nat" where
  "index_key kv = (case array_index (fst kv) of Some n \<Rightarrow> n | None \<Rightarrow> 0)"

text \<open>\<^verbatim>\<open>Object.fromEntries(map)\<close> for a map with string keys.\<close>

definition fromEntries :: "(string \<times> jsval) list \<Rightarrow> jsval" where
  "fromEntries kvs =
     JObj (sort_key index_key (filter (\<lambda>kv. array_index (fst kv) \<noteq> None) kvs) @
           filter (\<lambda>kv. array_index (fst kv) = None) kvs)"

text \<open>
  \<^verbatim>\<open>createBackup()\<close>: the value that reading the written file back with
  \<^verbatim>\<open>JSON.parse\<close> gives.  \<open>ts\<close> is the time stamp string.
\<close>

definition createBackup :: "(int \<Rightarrow> string) \<Rightarrow> string \<Rightarrow> game_maps \<Rightarrow> jsval" where
  "createBackup toISO ts gm =
     json_roundtrip toISO
       (JObj [(''timestamp'', JStr ts),
              (''rebels'', fromEntries (g_rebels gm)),
              (''corporations'', fromEntries (g_corporations gm)),
              (''inventory'', fromEntries (g_inventory gm)),
              (''achievements'', fromEntries (g_achievements gm)),
              (''activeTrades'', fromEntries (g_activeTrades gm)),
              (''marketplace'', fromEntries (g_marketplace gm)),
              (''auctions'', fromEntries (g_auctions gm)),
              (''dailyMissions'', fromEntries (g_dailyMissions gm)),
              (''globalEvents'', fromEntries (g_globalEvents gm)),
              (''raidParties'', fromEntries (g_raidParties gm)),
              (''resistanceCells'', fromEntries (g_resistanceCells gm)),
              (''leaderboard'', fromEntries (g_leaderboard gm)),
              (''cooldowns'', fromEntries (g_cooldowns gm))])"

text \<open>
  \<^verbatim>\<open>new Map(Object.entries(backupData.field || {}))\<close> on parsed JSON: the entries of
  an object; an absent or falsy field gives the empty map, and so does a number or
  \<^verbatim>\<open>true\<close>.  Parsed JSON holds an array or a non-empty string there only if the file
  was not written by \<^verbatim>\<open>createBackup\<close>; their index entries are not modelled
  (\<open>None\<close>).
\<close>

definition restored_map :: "jsval \<Rightarrow> string \<Rightarrow> (string \<times> jsval) list option" where
  "restored_map backupData field =
     (case (case backupData of JObj kvs \<Rightarrow> map_of kvs field | _ \<Rightarrow> None) of
        Some (JObj kvs) \<Rightarrow> Some kvs
      | Some (JArr vs) \<Rightarrow> (if vs = [] then Some [] else None)
      | Some (JStr s) \<Rightarrow> (if s = [] then Some [] else None)
      | _ \<Rightarrow> Some [])"

text \<open>
  \<^verbatim>\<open>loadBackup(backupFile)\<close>; \<open>file\<close> is the parsed content, \<open>None\<close> when the file
  is missing or is not JSON.  The result is the return value and the maps afterwards;
  \<open>None\<close> stands for the unmodelled case above.
\<close>

definition loadBackup :: "game_maps \<Rightarrow> jsval option \<Rightarrow> (bool \<times> game_maps) option" where
  "loadBackup gm file =
     (case file of
        None \<Rightarrow> Some (False, gm)
      | Some JNull \<Rightarrow> Some (False, gm)
      | Some backupData \<Rightarrow>
          (case map (restored_map backupData)
                  [''rebels'', ''corporations'', ''inventory'', ''achievements'',
                   ''activeTrades'', ''marketplace'', ''auctions'', ''dailyMissions'',
                   ''globalEvents'', ''raidParties'', ''resistanceCells'', ''leaderboard'',
                   ''cooldowns''] of
             [Some m1, Some m2, Some m3, Some m4, Some m5, Some m6, Some m7, Some m8,
              Some m9, Some m10, Some m11, Some m12, Some m13] \<Rightarrow>
               Some (True,
                     \<lparr>g_rebels = m1, g_corporations = m2, g_inventory = m3,
                      g_achievements = m4, g_activeTrades = m5, g_marketplace = m6,
                      g_auctions = m7, g_dailyMissions = m8, g_globalEvents = m9,
                      g_raidParties = m10, g_resistanceCells = m11, g_leaderboard = m12,
                      g_cooldowns = m13\<rparr>)
           | _ \<Rightarrow> None))"

text \<open>
  \<^verbatim>\<open>setCooldown(userId, action, duration)\<close>: the cooldowns of a user are a
  \<^verbatim>\<open>Map\<close> from action to the time the cooldown ends.
\<close>

definition map_set :: "'k \<Rightarrow> 'v \<Rightarrow> ('k \<times> 'v) list \<Rightarrow> ('k \<times> 'v) list" where
  "map_set k v kvs =
     (if k \<in> fst ` set kvs then map (\<lambda>(k', v'). if k' = k then (k', v) else (k', v')) kvs
      else kvs @ [(k, v)])"

definition setCooldown :: "game_maps \<Rightarrow> int \<Rightarrow> string \<Rightarrow> string \<Rightarrow> int \<Rightarrow> game_maps" where
  "setCooldown gm now uid action duration =
     (let userCooldowns = (case map_of (g_cooldowns gm) uid of
                             Some (JMap m) \<Rightarrow> m
                           | _ \<Rightarrow> []);
          userCooldowns' = map_set (JStr action) (JNum (of_int (now + duration * 1000))) userCooldowns
      in gm\<lparr>g_cooldowns := map_set uid (JMap userCooldowns') (g_cooldowns gm)\<rparr>)"

section \<open>Concrete states for the scenario checks\<close>

definition rookie :: rebel where
  "rookie =
     \<lparr>userId = ''u1'', username = ''neo'', rclass = ''Model Trainer'', level = 1,
      experience = 0, energy = 100, maxEnergy = 100, loyaltyScore = 0, corporateDamage = 0,
      totalRaids = 0, corporationsDefeated = 0, lastActive = 0,
      rstats = \<lparr>strength = 10, intelligence = 10, charisma = 10, stealth = 10\<rparr>\<rparr>"

text \<open>The first corporation of \<^verbatim>\<open>initializeGameData\<close>.\<close>

definition openai :: corporation where
  "openai =
     \<lparr>corp_name = ''OpenAI Corp'', health = 10000, maxHealth = 10000,
      loot = [''Proprietary Models'', ''Closed APIs'', ''Corporate Secrets''],
      alertLevel = 0, cm_active = [], lastActivated = None, knownRebels = {},
      threatAssessment = Map.empty\<rparr>"

definition trinket :: item where
  "trinket =
     \<lparr>item_id = ITM 0 0, item_name = ''Closed APIs'', item_type = ''resource'',
      rarity = ''common'', item_value = 10, acquiredFrom = ''OpenAI Corp'', acquiredAt = 0,
      activatedAt = None\<rparr>"

definition empty_world :: world where
  "empty_world =
     \<lparr>rebels = Map.empty, corporations = Map.empty, inventory = Map.empty,
      achievements = Map.empty, raidParties = Map.empty, marketplace = [], auctions = []\<rparr>"

text \<open>A rebel as \<^verbatim>\<open>createRebel\<close> leaves it, with loyalty 0, and the initial corporation.\<close>

definition scenario_world :: world where
  "scenario_world =
     empty_world
       \<lparr>rebels := [''u1'' \<mapsto> rookie],
        corporations := [''openai'' \<mapsto> openai],
        inventory := [''u1'' \<mapsto> \<lparr>items = [], capacity = 20, credits = 100\<rparr>],
        achievements := [''u1'' \<mapsto> [''first_rebel'']]\<rparr>"

text \<open>A rebel of level 2 with 190 experience points.\<close>

definition veteran_world :: world where
  "veteran_world =
     empty_world\<lparr>rebels := [''u1'' \<mapsto> rookie\<lparr>level := 2, experience := 190, maxEnergy := 110\<rparr>]\<rparr>"

text \<open>
  A party of two, both ready, in balanced formation, against a corporation that has 200 of
  its 10000 health points left.
\<close>

definition duo :: raid_party where
  "duo =
     \<lparr>party_id = ''p1'', leader = ''u1'', members = [''u1'', ''u2''],
      readyMembers = [''u1'', ''u2''], target = ''openai'',
      formation = ''balanced_formation'', state = ''ready'', results = None\<rparr>"

definition team_world :: world where
  "team_world =
     empty_world
       \<lparr>rebels := [''u1'' \<mapsto> rookie, ''u2'' \<mapsto> rookie\<lparr>userId := ''u2'', username := ''trinity''\<rparr>],
        corporations := [''openai'' \<mapsto> openai\<lparr>health := 200\<rparr>],
        inventory := [''u1'' \<mapsto> \<lparr>items = [], capacity = 20, credits = 100\<rparr>,
                      ''u2'' \<mapsto> \<lparr>items = [], capacity = 20, credits = 100\<rparr>],
        raidParties := [''p1'' \<mapsto> duo]\<rparr>"

text \<open>A party of three of which two are ready.\<close>

definition trio :: raid_party where
  "trio =
     \<lparr>party_id = ''p3'', leader = ''u1'', members = [''u1'', ''u2'', ''u3''],
      readyMembers = [''u1'', ''u2''], target = ''openai'',
      formation = ''assault_formation'', state = ''planning'', results = None\<rparr>"

definition trio_world :: world where
  "trio_world = team_world\<lparr>raidParties := [''p3'' \<mapsto> trio]\<rparr>"

text \<open>An inventory with 19 of 20 places taken, and a full one.\<close>

definition crowded_world :: world where
  "crowded_world =
     scenario_world
       \<lparr>inventory := [''u1'' \<mapsto> \<lparr>items = replicate 19 trinket, capacity = 20, credits = 1000\<rparr>]\<rparr>"

definition full_world :: world where
  "full_world =
     scenario_world
       \<lparr>inventory := [''u1'' \<mapsto> \<lparr>items = [trinket], capacity = 1, credits = 1000\<rparr>]\<rparr>"

text \<open>An expired listing of a seller whose inventory is full.\<close>

definition relic :: item where
  "relic = trinket\<lparr>item_id := ITM 1 0, item_name := ''Corporate Secrets'', item_value := 900\<rparr>"

definition market_world :: world where
  "market_world =
     full_world
       \<lparr>marketplace := [(''L1'', \<lparr>l_sellerId = ''u1'', l_item = relic,
                                  l_expiresAt = 1000\<rparr>)]\<rparr>"

text \<open>
  An ended auction with a bid of 500 above the starting bid of 100, whose bidder has a full
  inventory; the seller has room.
\<close>

definition lot :: auction where
  "lot =
     \<lparr>a_sellerId = ''u2'', a_item = relic, startingBid = 100, currentBid = 500,
      currentBidder = Some ''u1'', a_endTime = 1000, a_status = ''active'', winner = None\<rparr>"

definition auction_world :: world where
  "auction_world =
     empty_world
       \<lparr>inventory := [''u1'' \<mapsto> \<lparr>items = [trinket], capacity = 1, credits = 1000\<rparr>,
                      ''u2'' \<mapsto> \<lparr>items = [], capacity = 20, credits = 0\<rparr>],
        auctions := [(''A1'', lot)]\<rparr>"

text \<open>The same auction with a bidder who has room.\<close>

definition auction_world_ok :: world where
  "auction_world_ok =
     auction_world
       \<lparr>inventory := [''u1'' \<mapsto> \<lparr>items = [trinket], capacity = 20, credits = 1000\<rparr>,
                      ''u2'' \<mapsto> \<lparr>items = [], capacity = 20, credits = 0\<rparr>]\<rparr>"

text \<open>
  Two ended auctions of the same seller: the first with a bid by a bidder who has room, the
  second without a bid.
\<close>

definition unsold :: auction where
  "unsold =
     \<lparr>a_sellerId = ''u2'', a_item = trinket, startingBid = 100, currentBid = 100,
      currentBidder = None, a_endTime = 1500, a_status = ''active'', winner = None\<rparr>"

definition auction_world_two :: world where
  "auction_world_two = auction_world_ok\<lparr>auctions := [(''A1'', lot), (''A2'', unsold)]\<rparr>"

text \<open>Empty maps, and the maps after one call of \<^verbatim>\<open>setCooldown\<close>.\<close>

definition no_maps :: game_maps where
  "no_maps =
     \<lparr>g_rebels = [], g_corporations = [], g_inventory = [], g_achievements = [],
      g_activeTrades = [], g_marketplace = [], g_auctions = [], g_dailyMissions = [],
      g_globalEvents = [], g_raidParties = [], g_resistanceCells = [], g_leaderboard = [],
      g_cooldowns = []\<rparr>"

definition snapshot_maps :: game_maps where
  "snapshot_maps = setCooldown no_maps 1000 ''123456789012345678'' ''raid'' 300"

text \<open>The state a call leaves, whether it ended normally or by an exception.\<close>

definition outcome :: "'a completion \<Rightarrow> 'a" where
  "outcome c = (case c of Normal x \<Rightarrow> x | Throws x \<Rightarrow> x)"

definition final_world :: "(world \<times> rng) completion \<Rightarrow> world" where
  "final_world c = (case c of Normal (w, _) \<Rightarrow> w | Throws (w, _) \<Rightarrow> w)"

text \<open>
  An inventory has room when it exists and holds fewer items than its capacity.  A sweep
  never makes room: whoever has room afterwards had room before.
\<close>

definition has_room :: "(string \<rightharpoonup> inventory_rec) \<Rightarrow> string \<Rightarrow> bool" where
  "has_room invs u =
     (case invs u of None \<Rightarrow> False | Some i \<Rightarrow> int (length (items i)) < capacity i)"

definition no_new_room ::
  "(string \<rightharpoonup> inventory_rec) \<Rightarrow> (string \<rightharpoonup> inventory_rec) \<Rightarrow> bool" where
  "no_new_room invs invs' = (\<forall>u. has_room invs' u \<longrightarrow> has_room invs u)"

text \<open>
  A sweep only appends: what an inventory holds stays at the front of it.
\<close>

definition keeps_items ::
  "(string \<rightharpoonup> inventory_rec) \<Rightarrow> (string \<rightharpoonup> inventory_rec) \<Rightarrow> bool" where
  "keeps_items invs invs' =
     (\<forall>u x. invs u = Some x \<longrightarrow>
        (\<exists>y. invs' u = Some y \<and> take (length (items x)) (items y) = items x))"






text \<open>Health and maximal health of a corporation.\<close>

definition vitals :: "world \<Rightarrow> string \<Rightarrow> (int \<times> int) option" where
  "vitals w cid = map_option (\<lambda>c. (health c, maxHealth c)) (corporations w cid)"

text \<open>No inventory holds more items than its capacity.\<close>

definition within_capacity :: "world \<Rightarrow> bool" where
  "within_capacity w =
     (\<forall>uid invt. inventory w uid = Some invt \<longrightarrow> int (length (items invt)) \<le> capacity invt)"

section \<open>Auxiliary facts\<close>

lemma floor_rat_numeral [simp]:
  "\<lfloor>numeral a / numeral b :: rat\<rfloor> = numeral a div numeral b"
  by (metis floor_divide_of_int_eq of_int_numeral)

lemma floor_rat_hundredth: "\<lfloor>(of_int x :: rat) / 100\<rfloor> = x div 100"
  by (metis floor_divide_of_int_eq of_int_numeral)

text \<open>\<^const>\<open>floor_sqrt\<close> is the integer part of the real square root.\<close>

lemma sqrt_upto_le: "sqrt_upto n b * sqrt_upto n b \<le> n"
  by (induction b) auto

lemma sqrt_upto_max: "k \<le> b \<Longrightarrow> k * k \<le> n \<Longrightarrow> k \<le> sqrt_upto n b"
proof (induction b)
  case 0
  then show ?case by simp
next
  case (Suc b)
  show ?case
  proof (cases "Suc b * Suc b \<le> n")
    case True
    then show ?thesis using Suc.prems by simp
  next
    case False
    then have "k \<noteq> Suc b" using Suc.prems by auto
    then show ?thesis using False Suc by simp
  qed
qed

lemma floor_sqrt_real: "int (floor_sqrt n) = \<lfloor>sqrt (real n)\<rfloor>"
proof -
  let ?k = "floor_sqrt n"
  have le: "?k * ?k \<le> n"
    by (simp add: floor_sqrt_def sqrt_upto_le)
  have "\<not> Suc ?k * Suc ?k \<le> n"
  proof
    assume a: "Suc ?k * Suc ?k \<le> n"
    have "Suc ?k \<le> Suc ?k * Suc ?k" by simp
    then have "Suc ?k \<le> n" using a by linarith
    then have "Suc ?k \<le> sqrt_upto n n" using a by (rule sqrt_upto_max)
    then show False by (simp add: floor_sqrt_def)
  qed
  then have lt: "n < (?k + 1) * (?k + 1)" by simp
  have "(real ?k)\<^sup>2 \<le> real n"
    using le unfolding power2_eq_square by (metis of_nat_le_iff of_nat_mult)
  then have lower: "real ?k \<le> sqrt (real n)"
    by (rule real_le_rsqrt)
  have "real n < real ((?k + 1) * (?k + 1))"
    using lt by (simp only: of_nat_less_iff)
  then have "real n < (real ?k + 1)\<^sup>2"
    by (simp add: power2_eq_square algebra_simps)
  then have upper: "sqrt (real n) < real ?k + 1"
    by (simp add: real_less_lsqrt)
  have "\<lfloor>sqrt (real n)\<rfloor> = int ?k"
    using lower upper by (intro floor_unique) simp_all
  then show ?thesis by simp
qed

section \<open>Base damage\<close>

text \<open>
  C10.  The base damage of the slash command and the base damage of the game class are the
  same function, with the same table of class multipliers, and both are the formula
  \<open>floor((50 + 10 \<times> level + 5 \<times> floor(loyalty / 100)) \<times> classMultiplier)\<close>.
\<close>

theorem calculateDamage_implementations_agree:
  "raid_calculateDamage rebel = calculateDamage rebel
   \<and> raid_classMultipliers = classMultipliers
   \<and> calculateDamage rebel
       = spec_baseDamage (rclass rebel) (level rebel) (loyaltyScore rebel)"
  by (simp add: raid_calculateDamage_def calculateDamage_def raid_classMultipliers_def
      classMultipliers_def spec_baseDamage_def spec_classMultiplier_def
      floor_rat_hundredth Let_def mult.commute add.commute)

section \<open>Progression: level and experience\<close>

text \<open>
  C1.  Specified: after any experience gain the level equals
  \<open>min(L_max, floor(sqrt(experience / 100)) + 1)\<close>.  \<^const>\<open>gainExperience\<close> computes
  \<open>floor(experience / 100) + 1\<close> instead: a rebel of level 2 with 190 experience points who
  gains 13 points has 203 points and level 3, where the formula of
  \<^const>\<open>calculateLevel\<close> gives level 2.
\<close>

theorem gainExperience_level_is_linear:
  "map_option (\<lambda>r. (level r, experience r))
     (rebels (snd (gainExperience veteran_world ''u1'' 13)) ''u1'') = Some (3, 203)
   \<and> calculateLevel 203 = Some 2"
  by (simp add: gainExperience_def veteran_world_def empty_world_def rookie_def
      calculateLevel_def floor_sqrt_def numeral_2_eq_2 Let_def)

section \<open>The solo raid scenario\<close>

text \<open>Loot touches only the inventory; the draws it leaves are draws of the given stream.\<close>

lemma addLoot_frame:
  "rebels (final_world (addLootToInventory w g now uid corp d)) = rebels w
   \<and> corporations (final_world (addLootToInventory w g now uid corp d)) = corporations w
   \<and> achievements (final_world (addLootToInventory w g now uid corp d)) = achievements w"
  by (auto simp: addLootToInventory_def final_world_def Let_def split: option.splits completion.splits prod.splits)




lemma addLoot_item_draws:
  "\<forall>n. P (g n) \<Longrightarrow> addLoot_item corp d now i invt g = Normal (invt', g') \<Longrightarrow> P (g' n)"
  by (auto simp: addLoot_item_def draw_def Let_def split: if_splits option.splits prod.splits)




lemma pick_Some: "xs \<noteq> [] \<Longrightarrow> 0 \<le> r \<Longrightarrow> r < 1 \<Longrightarrow> \<exists>x. pick xs r = Some x"
proof -
  assume xs: "xs \<noteq> []" and r0: "0 \<le> r" and r1: "r < 1"
  have "0 \<le> r * of_nat (length xs)" using r0 by simp
  then have lo: "0 \<le> \<lfloor>r * of_nat (length xs)\<rfloor>" by simp
  have "r * of_nat (length xs) < of_nat (length xs)" using r1 xs by simp
  then have hi: "\<lfloor>r * of_nat (length xs)\<rfloor> < int (length xs)"
    by (simp add: floor_less_iff)
  show ?thesis using lo hi by (simp add: pick_def Let_def)
qed

lemma pick_mem: "pick xs r = Some x \<Longrightarrow> x \<in> set xs"
  by (auto simp: pick_def Let_def nat_less_iff split: if_splits intro!: nth_mem)

lemma addLoot_item_normal:
  assumes "loot corp \<noteq> []" "\<forall>n. 0 \<le> g n \<and> g n < 1"
  shows "\<exists>invt' g'. addLoot_item corp d now i invt g = Normal (invt', g')"
proof (cases "200 < d \<and> g 0 < 15 / 100")
  case True
  obtain x where x: "pick (map fst defensiveItems) (g (Suc 0)) = Some x"
    using pick_Some [of "map fst defensiveItems" "g (Suc 0)"] assms(2)
    by (auto simp: defensiveItems_def)
  have "x \<in> fst ` set defensiveItems"
    using pick_mem [OF x] by simp
  then obtain dd where "map_of defensiveItems x = Some dd"
    by (cases "map_of defensiveItems x") (auto simp: map_of_eq_None_iff)
  then show ?thesis
    using True x by (simp add: addLoot_item_def draw_def)
next
  case False
  show ?thesis
  proof (cases "200 < d")
    case True
    obtain x where "pick (loot corp) (g (Suc 0)) = Some x"
      using pick_Some [OF assms(1)] assms(2) by blast
    then show ?thesis
      using True False by (simp add: addLoot_item_def draw_def)
  next
    case d: False
    obtain x where "pick (loot corp) (g 0) = Some x"
      using pick_Some [OF assms(1)] assms(2) by blast
    then show ?thesis
      using d by (simp add: addLoot_item_def draw_def)
  qed
qed







section \<open>Corporation health\<close>

text \<open>
  Awards, loot and countermeasures leave the health of every corporation as it is.  So
  after a solo raid the health is what the damage left, or the maximum if that was 0; after
  a team raid that ends normally it is what the total damage left, 0 included.
\<close>

lemma final_world_simps:
  "final_world (Normal (w, g)) = w" "final_world (Throws (w, g)) = w"
  by (simp_all add: final_world_def)

lemma applyCountermeasureEffects_corporations:
  "applyCountermeasureEffects w now uid cm = (w1, b) \<Longrightarrow> corporations w1 = corporations w"
  by (auto simp: applyCountermeasureEffects_def Let_def split: option.splits if_splits)

lemma activateCountermeasure_vitals:
  "vitals (final_world (activateCountermeasure w g now cid uid)) k = vitals w k"
  by (auto simp: activateCountermeasure_def final_world_def vitals_def draw_def Let_def
      dest: applyCountermeasureEffects_corporations split: option.splits prod.splits)

lemma checkCountermeasureActivation_vitals:
  "vitals (final_world (checkCountermeasureActivation w g now cid uid d)) k = vitals w k"
proof (cases "corporations w cid")
  case None
  then show ?thesis by (simp add: checkCountermeasureActivation_def final_world_def)
next
  case (Some corp)
  define first where "first = (if g 0 * 100 < of_int (alertLevel corp * 15)
                       then activateCountermeasure w (\<lambda>n. g (Suc n)) now cid uid
                       else Normal (w, \<lambda>n. g (Suc n)))"
  define second where "second = (\<lambda>w1 g2.
     if d > 300 then
       (let immediateChance = min 80 (d / 5)
        in case draw g2 of (r, g3) \<Rightarrow>
             if r * 100 < immediateChance
             then activateCountermeasure w1 g3 now cid uid
             else Normal (w1, g3))
     else Normal (w1, g2))"
  have unfold: "checkCountermeasureActivation w g now cid uid d
      = (case first of Throws s \<Rightarrow> Throws s | Normal (w1, g2) \<Rightarrow> second w1 g2)"
    unfolding checkCountermeasureActivation_def first_def second_def
    using Some by (simp add: draw_def Let_def)
  have f: "vitals (final_world first) k = vitals w k"
    unfolding first_def by (simp add: activateCountermeasure_vitals final_world_simps)
  have snd: "vitals (final_world (second w1 g2)) k = vitals w1 k" for w1 g2
    unfolding second_def
    by (simp add: activateCountermeasure_vitals final_world_simps draw_def Let_def)
  show ?thesis
  proof (cases first)
    case (Throws s)
    then show ?thesis using f by (simp add: unfold)
  next
    case (Normal s)
    obtain w1 g2 where s: "s = (w1, g2)" by (cases s)
    have "vitals w1 k = vitals w k"
      using f Normal s by (simp add: final_world_simps)
    then show ?thesis using Normal s snd [of w1 g2] by (simp add: unfold)
  qed
qed

lemma processCorporateResponse_vitals:
  "vitals (final_world (processCorporateResponse w g now cid uid d)) k = vitals w k"
proof (cases "corporations w cid")
  case None
  then show ?thesis by (simp add: processCorporateResponse_def final_world_def)
next
  case (Some corp)
  show ?thesis
    using Some
    by (simp add: processCorporateResponse_def Let_def checkCountermeasureActivation_vitals)
       (simp add: vitals_def)
qed

lemma awardAchievement_corporations:
  "corporations (snd (awardAchievement w uid aid)) = corporations w"
  by (simp add: awardAchievement_def Let_def split: option.splits)

lemma check_one_corporations:
  "corporations (fst (check_one cond aid uid st)) = corporations (fst st)"
  by (cases st) (simp add: check_one_def awardAchievement_corporations split: option.splits)

lemma checkAchievements_corporations:
  "corporations (snd (checkAchievements w uid)) = corporations w"
  by (simp add: checkAchievements_def Let_def check_one_corporations split: option.splits)

lemma gainExperience_corporations:
  "corporations (snd (gainExperience w uid amount)) = corporations w"
  by (simp add: gainExperience_def Let_def split: option.splits)


lemma update_rebel_corporations:
  "corporations (update_rebel w uid f) = corporations w"
  by (simp add: update_rebel_def split: option.splits)

lemma raid_tail_vitals:
  "vitals (snd (case addLootToInventory w4 g1 now uid corp' ad of
                  Throws (w5, _) \<Rightarrow> (RaidError, w5)
                | Normal (w5, g2) \<Rightarrow>
                    (case checkAchievements w5 uid of (newAchievements, w6) \<Rightarrow>
                       (case processCorporateResponse w6 g2 now cid uid d of
                          Throws (w7, _) \<Rightarrow> (RaidError, w7)
                        | Normal (w7, _) \<Rightarrow> (RaidResult ad df lu, w7))))) k
   = vitals w4 k"
proof (cases "addLootToInventory w4 g1 now uid corp' ad")
  case (Throws s)
  obtain w5 g' where s: "s = (w5, g')" by (cases s)
  have "corporations w5 = corporations w4"
    using addLoot_frame [of w4 g1 now uid corp' ad] Throws s by (simp add: final_world_simps)
  then show ?thesis using Throws s by (simp add: vitals_def)
next
  case (Normal s)
  obtain w5 g2 where s: "s = (w5, g2)" by (cases s)
  have c5: "corporations w5 = corporations w4"
    using addLoot_frame [of w4 g1 now uid corp' ad] Normal s by (simp add: final_world_simps)
  obtain new w6 where ca: "checkAchievements w5 uid = (new, w6)"
    by (cases "checkAchievements w5 uid")
  have c6: "corporations w6 = corporations w5"
    using checkAchievements_corporations [of w5 uid] ca by simp
  have v6: "vitals w6 k = vitals w4 k"
    by (simp add: vitals_def c5 c6)
  note v7 = processCorporateResponse_vitals [of w6 g2 now cid uid d k]
  show ?thesis
  proof (cases "processCorporateResponse w6 g2 now cid uid d")
    case (Throws t)
    then show ?thesis
      using Normal s ca v6 v7 by (cases t) (simp add: final_world_simps)
  next
    case inner: (Normal t)
    then show ?thesis
      using Normal s ca v6 v7 by (cases t) (simp add: final_world_simps)
  qed
qed

lemma gainExperience_result_corporations:
  "gainExperience w uid amount = (lu, w') \<Longrightarrow> corporations w' = corporations w"
  using gainExperience_corporations [of w uid amount] by simp

lemma executeRaid_health:
  assumes "corporations w cid = Some c" "rebels w uid = Some r"
  shows "vitals (snd (executeRaid w g now cid uid)) cid
         = Some (let h = max 0 (health c - \<lfloor>of_int (calculateDamage r) * (8 / 10 + g 0 * (4 / 10))\<rfloor>)
                 in if h \<le> 0 then maxHealth c else h, maxHealth c)"
  using assms
  by (simp add: executeRaid_def draw_def Let_def raid_tail_vitals split: prod.splits)
     (auto simp: vitals_def awardAchievement_corporations update_rebel_corporations
        update_corporation_def Let_def dest!: gainExperience_result_corporations)


text \<open>The solo raid keeps the health within \<open>(0, maxHealth]\<close>.\<close>

lemma executeRaid_health_in_range:
  assumes "corporations w cid = Some c" "rebels w uid = Some r"
    and "0 \<le> health c" "health c \<le> maxHealth c" "0 < maxHealth c"
    and "0 \<le> calculateDamage r" "0 \<le> g 0"
  shows "\<exists>h. vitals (snd (executeRaid w g now cid uid)) cid = Some (h, maxHealth c)
             \<and> 0 < h \<and> h \<le> maxHealth c"
proof -
  define ad where "ad = \<lfloor>of_int (calculateDamage r) * (8 / 10 + g 0 * (4 / 10))\<rfloor>"
  have "0 \<le> (of_int (calculateDamage r) :: rat) * (8 / 10 + g 0 * (4 / 10))"
    using assms(6,7) by (intro mult_nonneg_nonneg) simp_all
  then have ad: "0 \<le> ad" unfolding ad_def by (simp only: zero_le_floor)
  have "vitals (snd (executeRaid w g now cid uid)) cid
          = Some (let h = max 0 (health c - ad) in if h \<le> 0 then maxHealth c else h, maxHealth c)"
    unfolding ad_def by (rule executeRaid_health [OF assms(1,2)])
  then show ?thesis
    using ad assms(3,4,5) by (auto simp: Let_def max_def split: if_splits)
qed

text \<open>The team raid: the health is not reset.\<close>

lemma member_loop_corporations:
  "corporations (fst (outcome (member_loop fopt ms w g t mr))) = corporations w"
proof (induction ms arbitrary: w g t mr)
  case Nil
  then show ?case by (simp add: outcome_def)
next
  case (Cons m ms)
  show ?case
  proof (cases "rebels w m")
    case None
    then show ?thesis using Cons.IH by simp
  next
    case (Some member)
    show ?thesis
    proof (cases fopt)
      case None
      then show ?thesis using Some by (simp add: outcome_def draw_def)
    next
      case fm: (Some f)
      show ?thesis
        using Some fm Cons.IH
        by (simp add: draw_def Let_def update_rebel_corporations)
    qed
  qed
qed

lemma update_inventory_corporations:
  "corporations (update_inventory w uid f) = corporations w"
  by (simp add: update_inventory_def split: option.splits)

lemma distribute_fold_corporations:
  "corporations (fold (\<lambda>(index, memberId) w'. update_inventory w' memberId (F index)) xs w)
     = corporations w"
  by (induction xs arbitrary: w) (auto simp: update_inventory_corporations)

lemma distributeTeamLoot_corporations:
  "corporations (distributeTeamLoot w raidParty teamLoot) = corporations w"
  unfolding distributeTeamLoot_def Let_def by (rule distribute_fold_corporations)

lemma response_loop_vitals:
  "vitals (final_world (response_loop tgt d now ms w g)) k = vitals w k"
proof (induction ms arbitrary: w g)
  case Nil
  then show ?case by (simp add: final_world_simps)
next
  case (Cons m ms)
  show ?case
  proof (cases "rebels w m")
    case None
    then show ?thesis using Cons.IH by simp
  next
    case (Some member)
    note v = processCorporateResponse_vitals [of w g now tgt m d k]
    show ?thesis
    proof (cases "processCorporateResponse w g now tgt m d")
      case (Throws s)
      then show ?thesis using Some v by (cases s) (simp add: final_world_simps)
    next
      case (Normal s)
      then show ?thesis using Some v Cons.IH by (cases s) (simp add: final_world_simps)
    qed
  qed
qed

lemma executeCoordinatedRaid_health:
  assumes "executeCoordinatedRaid w g now partyId p = (CoordinatedRaidSuccessful dmg, w')"
    and "corporations w (target p) = Some c"
  shows "vitals w' (target p) = Some (max 0 (health c - dmg), maxHealth c)"
proof -
  let ?fopt = "map_of formations (formation p)"
  obtain w1 g1 t mr where ml: "member_loop ?fopt (members p) w g 0 [] = Normal (w1, g1, t, mr)"
    using assms(1)
    by (auto simp: executeCoordinatedRaid_def Let_def split: completion.splits prod.splits)
  have c1: "corporations w1 = corporations w"
    using member_loop_corporations [of ?fopt "members p" w g 0 "[]"] ml by (simp add: outcome_def)
  define w2 where "w2 = update_corporation w1 (target p) (\<lambda>c. c\<lparr>health := max 0 (health c - t)\<rparr>)"
  have v2: "vitals w2 (target p) = Some (max 0 (health c - t), maxHealth c)"
    using assms(2) c1 by (simp add: w2_def update_corporation_def vitals_def)
  obtain tl g2 where gl: "generateTeamLoot w2 g1 now p t = Normal (tl, g2)"
    using assms(1) ml assms(2) c1
    by (auto simp: executeCoordinatedRaid_def Let_def w2_def split: completion.splits prod.splits)
  define w3 where "w3 = distributeTeamLoot w2 p tl"
  have v3: "vitals w3 (target p) = vitals w2 (target p)"
    by (simp add: w3_def vitals_def distributeTeamLoot_corporations)
  define resp where "resp = (if g2 0 > (case ?fopt of None \<Rightarrow> 0 | Some fm \<Rightarrow>
                                   (case stealthBonus fm of None \<Rightarrow> 0 | Some b \<Rightarrow> b))
      then response_loop (target p) (of_int t / of_nat (length (members p))) now (members p) w3
             (\<lambda>n. g2 (Suc n))
      else Normal (w3, \<lambda>n. g2 (Suc n)))"
  have vr: "vitals (final_world resp) (target p) = vitals w3 (target p)"
    unfolding resp_def by (simp add: response_loop_vitals final_world_simps)
  have unfold: "executeCoordinatedRaid w g now partyId p
      = (case resp of
           Throws (w4, _) \<Rightarrow> (TeamRaidError, w4)
         | Normal (w4, _) \<Rightarrow>
             (CoordinatedRaidSuccessful t,
              w4\<lparr>raidParties := (raidParties w4)
                  (partyId \<mapsto> p\<lparr>state := ''completed'',
                                 results := Some \<lparr>res_totalDamage = t, res_memberResults = mr,
                                                  res_loot = tl, res_timestamp = now\<rparr>\<rparr>)\<rparr>))"
    using ml gl assms(2) c1
    by (simp add: executeCoordinatedRaid_def Let_def w2_def [symmetric] w3_def [symmetric]
        resp_def draw_def)
  show ?thesis
  proof (cases resp)
    case (Throws s)
    then show ?thesis using assms(1) unfold by (cases s) simp
  next
    case (Normal s)
    obtain w4 g4 where s: "s = (w4, g4)" by (cases s)
    have "dmg = t" and "w' = w4\<lparr>raidParties := (raidParties w4)
                  (partyId \<mapsto> p\<lparr>state := ''completed'',
                                 results := Some \<lparr>res_totalDamage = t, res_memberResults = mr,
                                                  res_loot = tl, res_timestamp = now\<rparr>\<rparr>)\<rparr>"
      using assms(1) unfold Normal s by auto
    moreover have "vitals w4 (target p) = Some (max 0 (health c - t), maxHealth c)"
      using vr v3 v2 Normal s by (simp add: final_world_simps)
    ultimately show ?thesis by (simp add: vitals_def)
  qed
qed

text \<open>
  C2.  Specified: after a solo or a team raid the health of the corporation is within
  \<open>[0, maxHealth]\<close>, and a health of 0 is reset to \<open>maxHealth\<close> in the same mutation.  The
  solo raid does so; the team raid has no reset.  Two rebels in balanced formation, each
  dealing 130 points with the draw 0, bring a corporation from 200 health points to 0, and
  the raid ends with the corporation at 0 of 10000.
\<close>

theorem coordinated_raid_leaves_health_zero:
  "fst (handleExecuteTeamRaid team_world (\<lambda>_. 0) 5000 ''p1'' ''u1'')
     = CoordinatedRaidSuccessful 260
   \<and> map_option (\<lambda>c. (health c, maxHealth c))
       (corporations (snd (handleExecuteTeamRaid team_world (\<lambda>_. 0) 5000 ''p1'' ''u1''))
          ''openai'') = Some (0, 10000)"
  by (simp add: handleExecuteTeamRaid_def executeCoordinatedRaid_def team_world_def duo_def
      empty_world_def rookie_def openai_def set_size_def formations_def draw_def
      update_rebel_def update_corporation_def update_inventory_def generateTeamLoot_def
      distributeTeamLoot_def give_items_def pick_def getItemType_def getItemRarity_def
      Let_def enumerate_eq_zip numeral_2_eq_2)

section \<open>Concurrent solo raids\<close>









section \<open>Inventory capacity\<close>

text \<open>
  One pass of the loot loop keeps capacity, credits and the items already held, and adds
  at most one item.
\<close>

lemma addLoot_item_props:
  "capacity (fst (outcome (addLoot_item corp d now i invt g))) = capacity invt
   \<and> credits (fst (outcome (addLoot_item corp d now i invt g))) = credits invt
   \<and> take (length (items invt)) (items (fst (outcome (addLoot_item corp d now i invt g)))) = items invt
   \<and> length (items (fst (outcome (addLoot_item corp d now i invt g)))) \<le> length (items invt) + 1"
  by (simp add: addLoot_item_def outcome_def draw_def Let_def split: option.splits prod.splits)

lemma addLoot_loop_props:
  "int (length (items invt)) \<le> capacity invt \<Longrightarrow>
   int (length (items (fst (outcome (addLoot_loop corp d now ixs invt g))))) \<le> capacity invt
   \<and> capacity (fst (outcome (addLoot_loop corp d now ixs invt g))) = capacity invt
   \<and> credits (fst (outcome (addLoot_loop corp d now ixs invt g))) = credits invt
   \<and> take (length (items invt)) (items (fst (outcome (addLoot_loop corp d now ixs invt g)))) = items invt"
proof (induction ixs arbitrary: invt g)
  case Nil
  then show ?case by (simp add: outcome_def)
next
  case (Cons i rest)
  show ?case
  proof (cases "int (length (items invt)) \<ge> capacity invt")
    case True
    then show ?thesis using Cons.prems by (simp add: outcome_def)
  next
    case False
    note props = addLoot_item_props [of corp d now i invt g]
    show ?thesis
    proof (cases "addLoot_item corp d now i invt g")
      case (Throws s)
      then show ?thesis
        using False Cons.prems props by (simp add: outcome_def)
    next
      case (Normal s)
      obtain invt1 g1 where s: "s = (invt1, g1)" by (cases s)
      have p: "capacity invt1 = capacity invt" "credits invt1 = credits invt"
        "take (length (items invt)) (items invt1) = items invt"
        "length (items invt1) \<le> length (items invt) + 1"
        using props Normal s by (simp_all add: outcome_def)
      have 1: "int (length (items invt1)) \<le> capacity invt1"
        using False p by simp
      have "min (length (items invt1)) (length (items invt)) = length (items invt)"
        using arg_cong [OF p(3), of length] by simp
      then have 4: "length (items invt) \<le> length (items invt1)"
        by linarith
      note ih = Cons.IH [OF 1, of g1]
      let ?r = "fst (outcome (addLoot_loop corp d now rest invt1 g1))"
      have "take (length (items invt)) (items ?r)
              = take (length (items invt)) (take (length (items invt1)) (items ?r))"
        using 4 by (simp add: min.absorb1)
      also have "\<dots> = items invt"
        using ih p(3) by simp
      finally have 5: "take (length (items invt)) (items ?r) = items invt" .
      show ?thesis
        using False Normal s ih p 5 by simp
    qed
  qed
qed


lemma addLootToInventory_within:
  assumes "within_capacity w"
  shows "within_capacity (final_world (addLootToInventory w g now uid corp d))"
proof (cases "inventory w uid")
  case None
  then show ?thesis using assms by (simp add: addLootToInventory_def final_world_def)
next
  case (Some invt)
  have le: "int (length (items invt)) \<le> capacity invt"
    using assms Some by (simp add: within_capacity_def)
  note props = addLoot_loop_props [OF le, of corp d now "[0..<nat (min 3 (d div 100 + 1))]" g]
  show ?thesis
    using assms Some props
    by (cases "addLoot_loop corp d now [0..<nat (min 3 (d div 100 + 1))] invt g")
       (auto simp: addLootToInventory_def final_world_def within_capacity_def outcome_def Let_def
          split: if_splits)
qed

lemma addLootToInventory_keeps_items:
  assumes "within_capacity w" "inventory w uid = Some invt"
  shows "map_option (\<lambda>i. take (length (items invt)) (items i))
           (inventory (final_world (addLootToInventory w g now uid corp d)) uid)
         = Some (items invt)"
proof -
  have le: "int (length (items invt)) \<le> capacity invt"
    using assms by (simp add: within_capacity_def)
  note props = addLoot_loop_props [OF le, of corp d now "[0..<nat (min 3 (d div 100 + 1))]" g]
  show ?thesis
    using assms props
    by (cases "addLoot_loop corp d now [0..<nat (min 3 (d div 100 + 1))] invt g")
       (auto simp: addLootToInventory_def final_world_def outcome_def Let_def)
qed

lemma give_step_within:
  "int (length (items invt)) \<le> capacity invt \<Longrightarrow>
   int (length (items (fold (\<lambda>(itemIndex, it) iv.
             if itemIndex mod n = index then
               (if int (length (items iv)) < capacity iv
                then iv\<lparr>items := items iv @ [it]\<rparr> else iv)
             else iv) xs invt)))
     \<le> capacity (fold (\<lambda>(itemIndex, it) iv.
             if itemIndex mod n = index then
               (if int (length (items iv)) < capacity iv
                then iv\<lparr>items := items iv @ [it]\<rparr> else iv)
             else iv) xs invt)"
  by (induction xs arbitrary: invt) (auto split: prod.splits)

lemma give_items_within:
  "int (length (items invt)) \<le> capacity invt \<Longrightarrow>
   int (length (items (give_items n index its invt))) \<le> capacity (give_items n index its invt)"
  unfolding give_items_def by (rule give_step_within)

lemma update_inventory_within:
  assumes "within_capacity w"
    and "\<And>i. int (length (items i)) \<le> capacity i \<Longrightarrow> int (length (items (f i))) \<le> capacity (f i)"
  shows "within_capacity (update_inventory w uid f)"
  using assms by (auto simp: update_inventory_def within_capacity_def split: option.splits)

lemma distribute_fold_within:
  "within_capacity w \<Longrightarrow>
   within_capacity (fold (\<lambda>(index, memberId) w'.
                 update_inventory w' memberId
                   (\<lambda>invt. give_items n index its (invt\<lparr>credits := credits invt + cpm\<rparr>)))
              xs w)"
proof (induction xs arbitrary: w)
  case Nil
  then show ?case by simp
next
  case (Cons x xs)
  obtain index memberId where x: "x = (index, memberId)" by (cases x)
  have "within_capacity (update_inventory w memberId
          (\<lambda>invt. give_items n index its (invt\<lparr>credits := credits invt + cpm\<rparr>)))"
    by (rule update_inventory_within [OF Cons.prems]) (simp add: give_items_within)
  then show ?case using Cons.IH x by simp
qed

lemma distributeTeamLoot_within:
  "within_capacity w \<Longrightarrow> within_capacity (distributeTeamLoot w raidParty teamLoot)"
  unfolding distributeTeamLoot_def Let_def by (rule distribute_fold_within)

lemma shop_within:
  "within_capacity w \<Longrightarrow> within_capacity (snd (handleBuyDefensiveItem w g now itemType uid))"
  by (auto simp: handleBuyDefensiveItem_def within_capacity_def draw_def Let_def
      split: option.splits)

lemma shop_rejects_whole:
  "fst (handleBuyDefensiveItem w g now itemType uid) \<noteq> Purchased \<Longrightarrow>
   snd (handleBuyDefensiveItem w g now itemType uid) = w"
  by (auto simp: handleBuyDefensiveItem_def draw_def Let_def split: option.splits if_splits)

lemma shop_full:
  "inventory w uid = Some invt \<Longrightarrow> capacity invt \<le> int (length (items invt)) \<Longrightarrow>
   fst (handleBuyDefensiveItem w g now itemType uid) \<noteq> Purchased"
  by (auto simp: handleBuyDefensiveItem_def draw_def Let_def split: option.splits if_splits)


text \<open>
  What the three operations add.  With draws in \<open>[0, 1)\<close> and a loot table that is not
  empty, each pass of the loot loop adds one item, so the loop over \<open>n\<close> indices leaves
  \<open>min(capacity, count + n)\<close> items.
\<close>

lemma addLoot_item_count:
  "addLoot_item corp d now i invt g = Normal (invt', g') \<Longrightarrow>
   length (items invt') = length (items invt) + 1 \<and> capacity invt' = capacity invt"
  by (auto simp: addLoot_item_def draw_def Let_def split: if_splits option.splits prod.splits)

lemma addLoot_loop_count:
  assumes "loot corp \<noteq> []"
  shows "int (length (items invt)) \<le> capacity invt \<Longrightarrow> \<forall>n. 0 \<le> g n \<and> g n < 1 \<Longrightarrow>
         \<exists>invt' g'. addLoot_loop corp d now ixs invt g = Normal (invt', g')
            \<and> int (length (items invt'))
                = min (capacity invt) (int (length (items invt)) + int (length ixs))"
proof (induction ixs arbitrary: invt g)
  case Nil
  then show ?case by simp
next
  case (Cons i rest)
  show ?case
  proof (cases "int (length (items invt)) \<ge> capacity invt")
    case True
    then show ?thesis using Cons.prems by simp
  next
    case False
    obtain invt1 g1 where step: "addLoot_item corp d now i invt g = Normal (invt1, g1)"
      using addLoot_item_normal [OF assms Cons.prems(2)] by blast
    have g1: "\<forall>n. 0 \<le> g1 n \<and> g1 n < 1"
      using addLoot_item_draws [where P = "\<lambda>x. 0 \<le> x \<and> x < 1", OF Cons.prems(2) step] by simp
    note cnt = addLoot_item_count [OF step]
    have le1: "int (length (items invt1)) \<le> capacity invt1"
      using False cnt by simp
    obtain invt' g' where rest: "addLoot_loop corp d now rest invt1 g1 = Normal (invt', g')"
      and n: "int (length (items invt'))
                = min (capacity invt1) (int (length (items invt1)) + int (length rest))"
      using Cons.IH [OF le1 g1] by blast
    have "addLoot_loop corp d now (i # rest) invt g = Normal (invt', g')"
      using False step rest by simp
    moreover have "int (length (items invt'))
        = min (capacity invt) (int (length (items invt)) + int (length (i # rest)))"
      using n cnt by simp
    ultimately show ?thesis by blast
  qed
qed

lemma addLootToInventory_count:
  assumes "inventory w uid = Some invt" "int (length (items invt)) \<le> capacity invt"
    and "loot corp \<noteq> []" "\<forall>n. 0 \<le> g n \<and> g n < 1"
  shows "\<exists>w' g'. addLootToInventory w g now uid corp d = Normal (w', g')
           \<and> map_option (\<lambda>i. (int (length (items i)), credits i, capacity i)) (inventory w' uid)
             = Some (min (capacity invt)
                       (int (length (items invt)) + max 0 (min 3 (d div 100 + 1))),
                     credits invt + d div 5, capacity invt)"
proof -
  let ?ixs = "[0..<nat (min 3 (d div 100 + 1))]"
  obtain invt' g' where loop: "addLoot_loop corp d now ?ixs invt g = Normal (invt', g')"
    and n: "int (length (items invt'))
              = min (capacity invt) (int (length (items invt)) + int (length ?ixs))"
    using addLoot_loop_count [OF assms(3,2,4)] by blast
  have props: "capacity invt' = capacity invt" "credits invt' = credits invt"
    using addLoot_loop_props [OF assms(2), of corp d now ?ixs g] loop
    by (simp_all add: outcome_def)
  have len: "int (length ?ixs) = max 0 (min 3 (d div 100 + 1))"
    by simp
  show ?thesis
    using assms(1) loop n props unfolding len
    by (simp add: addLootToInventory_def Let_def)
qed

lemma give_fold_items:
  "fold (\<lambda>(itemIndex, it) iv.
             if itemIndex mod n = index then
               (if int (length (items iv)) < capacity iv
                then iv\<lparr>items := items iv @ [it]\<rparr> else iv)
             else iv) ps invt
   = invt\<lparr>items := items invt
        @ take (nat (capacity invt - int (length (items invt))))
            (map snd (filter (\<lambda>(j, _). j mod n = index) ps))\<rparr>"
proof (induction ps arbitrary: invt)
  case Nil
  then show ?case by simp
next
  case (Cons p ps)
  obtain j it where p: "p = (j, it)" by (cases p)
  show ?case
  proof (cases "j mod n = index \<and> int (length (items invt)) < capacity invt")
    case True
    then have "nat (capacity invt - int (length (items invt)))
                 = Suc (nat (capacity invt - (1 + int (length (items invt)))))"
      by linarith
    then show ?thesis
      using True p Cons.IH [of "invt\<lparr>items := items invt @ [it]\<rparr>"] by simp
  next
    case False
    then show ?thesis
      using p Cons.IH [of invt] by auto
  qed
qed

lemma give_items_eq:
  "give_items n index its invt
   = invt\<lparr>items := items invt
        @ take (nat (capacity invt - int (length (items invt))))
            (map snd (filter (\<lambda>(j, _). j mod n = index) (enumerate 0 its)))\<rparr>"
  unfolding give_items_def by (rule give_fold_items)

lemma update_inventory_other:
  "uid \<noteq> m \<Longrightarrow> inventory (update_inventory w m f) uid = inventory w uid"
  by (simp add: update_inventory_def split: option.splits)

lemma update_inventory_same:
  "inventory (update_inventory w m f) m = map_option f (inventory w m)"
  by (simp add: update_inventory_def split: option.splits)

lemma distribute_fold_other:
  "uid \<notin> snd ` set ps \<Longrightarrow>
   inventory (fold (\<lambda>(index, memberId) w'. update_inventory w' memberId (F index)) ps w) uid
     = inventory w uid"
  by (induction ps arbitrary: w) (auto simp: update_inventory_other)

lemma distribute_fold_member:
  "distinct (map snd ps) \<Longrightarrow> (idx, uid) \<in> set ps \<Longrightarrow>
   inventory (fold (\<lambda>(index, memberId) w'. update_inventory w' memberId (F index)) ps w) uid
     = map_option (F idx) (inventory w uid)"
proof (induction ps arbitrary: w)
  case Nil
  then show ?case by simp
next
  case (Cons p ps)
  obtain j m where p: "p = (j, m)" by (cases p)
  show ?case
  proof (cases "(idx, uid) = (j, m)")
    case True
    then have "uid \<notin> snd ` set ps"
      using Cons.prems(1) p by auto
    then show ?thesis
      using True p by (simp add: distribute_fold_other update_inventory_same)
  next
    case False
    then have mem: "(idx, uid) \<in> set ps"
      using Cons.prems(2) p by auto
    then have "uid \<noteq> m"
      using Cons.prems(1) p by force
    then show ?thesis
      using Cons.IH [OF _ mem] Cons.prems(1) p by (simp add: update_inventory_other)
  qed
qed

lemma distributeTeamLoot_member:
  assumes "distinct (members p)" "i < length (members p)"
    and "inventory w (members p ! i) = Some invt"
  shows "inventory (distributeTeamLoot w p tloot) (members p ! i)
     = Some (invt\<lparr>credits := credits invt + tl_credits tloot div int (length (members p)),
                  items := items invt
                    @ take (nat (capacity invt - int (length (items invt))))
                        (map snd (filter (\<lambda>(j, _). j mod length (members p) = i)
                                    (enumerate 0 (tl_items tloot))))\<rparr>)"
proof -
  have mem: "(i, members p ! i) \<in> set (enumerate 0 (members p))"
    using assms(2) by (simp add: in_set_enumerate_eq)
  have d: "distinct (map snd (enumerate 0 (members p)))"
    using assms(1) by simp
  show ?thesis
    unfolding distributeTeamLoot_def Let_def
    using distribute_fold_member [OF d mem, of
        "\<lambda>index invt. give_items (length (members p)) index (tl_items tloot)
             (invt\<lparr>credits := credits invt + tl_credits tloot div int (length (members p))\<rparr>)" w]
    by (simp add: assms(3) give_items_eq)
qed

lemma distributeTeamLoot_other:
  "uid \<notin> set (members p) \<Longrightarrow> inventory (distributeTeamLoot w p tloot) uid = inventory w uid"
  unfolding distributeTeamLoot_def Let_def
  using set_map [of snd "enumerate 0 (members p)"] distribute_fold_other [of uid "enumerate 0 (members p)"
        "\<lambda>index invt. give_items (length (members p)) index (tl_items tloot)
             (invt\<lparr>credits := credits invt + tl_credits tloot div int (length (members p))\<rparr>)" w]
  by simp

lemma shop_purchase:
  assumes "inventory w uid = Some invt" "map_of defensiveItems itemType = Some d"
    and "cost d \<le> credits invt" "int (length (items invt)) < capacity invt"
  shows "handleBuyDefensiveItem w g now itemType uid
     = (Purchased,
        w\<lparr>inventory := (inventory w)
            (uid \<mapsto> invt\<lparr>credits := credits invt - cost d,
                          items := items invt
                            @ [\<lparr>item_id = Stamp_Rand now (g 0), item_name = d_name d,
                                item_type = itemType, rarity = d_rarity d,
                                item_value = cost d, acquiredFrom = ''Defense Shop'',
                                acquiredAt = now, activatedAt = None\<rparr>]\<rparr>)\<rparr>)"
  using assms by (simp add: handleBuyDefensiveItem_def draw_def Let_def)


text \<open>
  C5, as specified: an operation that would exceed the capacity is rejected as a
  whole, not truncated.  The loot award is truncated: a raid with damage 250 awards three
  items; on an inventory with 19 of 20 places taken, the first item is added, the other two
  are dropped, and the credits are paid.
\<close>

theorem loot_award_is_truncated:
  "map_option items (inventory crowded_world ''u1'') = Some (replicate 19 trinket)
   \<and> map_option credits (inventory crowded_world ''u1'') = Some 1000
   \<and> min 3 (250 div 100 + 1) = (3 :: int)
   \<and> map_option items
       (inventory (final_world (addLootToInventory crowded_world (\<lambda>_. 1 / 2) 1000 ''u1'' openai 250))
          ''u1'')
     = Some (replicate 19 trinket @
         [\<lparr>item_id = ITM 1000 (1 / 2), item_name = ''Closed APIs'', item_type = ''resource'',
           rarity = ''rare'', item_value = 50, acquiredFrom = ''OpenAI Corp'',
           acquiredAt = 1000, activatedAt = None\<rparr>])
   \<and> map_option credits
       (inventory (final_world (addLootToInventory crowded_world (\<lambda>_. 1 / 2) 1000 ''u1'' openai 250))
          ''u1'')
     = Some 1050"
  by (simp add: addLootToInventory_def addLoot_item_def final_world_def crowded_world_def
      scenario_world_def empty_world_def openai_def draw_def pick_def getItemType_def
      getItemRarity_def Let_def upt_rec numeral_2_eq_2)

text \<open>
  C5, amended.  If no inventory holds more items than its capacity, then none does after
  a loot award, a team-loot distribution or a shop purchase, and every item already held is
  kept.  The shop rejects as a whole: a request that does not end in a purchase changes
  nothing, a request on a full inventory does not end in a purchase, and a request for a
  known item with enough credits and room adds exactly that item and deducts its cost.
  The loot award and the distribution truncate.  A loot award (draws in \<open>[0, 1)\<close>, loot
  table not empty) of \<open>n = max(0, min(3, damage div 100 + 1))\<close> items ends normally with
  \<open>min(capacity, count + n)\<close> items and \<open>damage div 5\<close> more credits.  A distribution among
  distinct members gives the member at index \<open>i\<close> its share of the credits and, of the items
  whose index is \<open>i\<close> modulo the number of members, the first ones that fit; it changes no
  other inventory.
\<close>

theorem inventory_capacity_respected:
  "within_capacity w \<Longrightarrow>
     within_capacity (final_world (addLootToInventory w g now uid corp damage))
     \<and> within_capacity (distributeTeamLoot w raidParty teamLoot)
     \<and> within_capacity (snd (handleBuyDefensiveItem w g now itemType uid))
     \<and> (fst (handleBuyDefensiveItem w g now itemType uid) \<noteq> Purchased \<longrightarrow>
          snd (handleBuyDefensiveItem w g now itemType uid) = w)
     \<and> (\<forall>invt. inventory w uid = Some invt \<longrightarrow>
          (capacity invt \<le> int (length (items invt)) \<longrightarrow>
             fst (handleBuyDefensiveItem w g now itemType uid) \<noteq> Purchased)
          \<and> (\<forall>d. map_of defensiveItems itemType = Some d \<longrightarrow> cost d \<le> credits invt \<longrightarrow>
                 int (length (items invt)) < capacity invt \<longrightarrow>
                 handleBuyDefensiveItem w g now itemType uid
                   = (Purchased,
                      w\<lparr>inventory := (inventory w)
                          (uid \<mapsto> invt\<lparr>credits := credits invt - cost d,
                                        items := items invt
                                          @ [\<lparr>item_id = Stamp_Rand now (g 0),
                                              item_name = d_name d, item_type = itemType,
                                              rarity = d_rarity d, item_value = cost d,
                                              acquiredFrom = ''Defense Shop'',
                                              acquiredAt = now, activatedAt = None\<rparr>]\<rparr>)\<rparr>))
          \<and> map_option (\<lambda>i. take (length (items invt)) (items i))
               (inventory (final_world (addLootToInventory w g now uid corp damage)) uid)
             = Some (items invt)
          \<and> (loot corp \<noteq> [] \<longrightarrow> (\<forall>n. 0 \<le> g n \<and> g n < 1) \<longrightarrow>
               (\<exists>w' g'. addLootToInventory w g now uid corp damage = Normal (w', g')
                  \<and> map_option (\<lambda>i. (int (length (items i)), credits i, capacity i))
                      (inventory w' uid)
                    = Some (min (capacity invt)
                              (int (length (items invt)) + max 0 (min 3 (damage div 100 + 1))),
                            credits invt + damage div 5, capacity invt))))
     \<and> (distinct (members raidParty) \<longrightarrow>
          (\<forall>i invt. i < length (members raidParty) \<longrightarrow>
             inventory w (members raidParty ! i) = Some invt \<longrightarrow>
             inventory (distributeTeamLoot w raidParty teamLoot) (members raidParty ! i)
               = Some (invt\<lparr>credits := credits invt
                                 + tl_credits teamLoot div int (length (members raidParty)),
                            items := items invt
                              @ take (nat (capacity invt - int (length (items invt))))
                                  (map snd (filter (\<lambda>(j, _). j mod length (members raidParty) = i)
                                              (enumerate 0 (tl_items teamLoot))))\<rparr>)))
     \<and> (\<forall>u. u \<notin> set (members raidParty) \<longrightarrow>
          inventory (distributeTeamLoot w raidParty teamLoot) u = inventory w u)"
proof (intro conjI allI impI)
  assume wc: "within_capacity w"
  show "within_capacity (final_world (addLootToInventory w g now uid corp damage))"
    using wc by (rule addLootToInventory_within)
  show "within_capacity (distributeTeamLoot w raidParty teamLoot)"
    using wc by (rule distributeTeamLoot_within)
  show "within_capacity (snd (handleBuyDefensiveItem w g now itemType uid))"
    using wc by (rule shop_within)
  show "snd (handleBuyDefensiveItem w g now itemType uid) = w"
    if "fst (handleBuyDefensiveItem w g now itemType uid) \<noteq> Purchased"
    using that by (rule shop_rejects_whole)
  show "fst (handleBuyDefensiveItem w g now itemType uid) \<noteq> Purchased"
    if "inventory w uid = Some invt" "capacity invt \<le> int (length (items invt))" for invt
    using that by (rule shop_full)
  show "handleBuyDefensiveItem w g now itemType uid
          = (Purchased,
             w\<lparr>inventory := (inventory w)
                 (uid \<mapsto> invt\<lparr>credits := credits invt - cost d,
                               items := items invt
                                 @ [\<lparr>item_id = Stamp_Rand now (g 0),
                                     item_name = d_name d, item_type = itemType,
                                     rarity = d_rarity d, item_value = cost d,
                                     acquiredFrom = ''Defense Shop'',
                                     acquiredAt = now, activatedAt = None\<rparr>]\<rparr>)\<rparr>)"
    if "inventory w uid = Some invt" "map_of defensiveItems itemType = Some d"
      "cost d \<le> credits invt" "int (length (items invt)) < capacity invt" for invt d
    using that by (rule shop_purchase)
  show "map_option (\<lambda>i. take (length (items invt)) (items i))
          (inventory (final_world (addLootToInventory w g now uid corp damage)) uid)
        = Some (items invt)"
    if "inventory w uid = Some invt" for invt
    using wc that by (rule addLootToInventory_keeps_items)
  show "\<exists>w' g'. addLootToInventory w g now uid corp damage = Normal (w', g')
          \<and> map_option (\<lambda>i. (int (length (items i)), credits i, capacity i)) (inventory w' uid)
            = Some (min (capacity invt)
                      (int (length (items invt)) + max 0 (min 3 (damage div 100 + 1))),
                    credits invt + damage div 5, capacity invt)"
    if "inventory w uid = Some invt" "loot corp \<noteq> []" "\<forall>n. 0 \<le> g n \<and> g n < 1" for invt
  proof -
    have "int (length (items invt)) \<le> capacity invt"
      using wc that(1) by (simp add: within_capacity_def)
    then show ?thesis
      using that by (intro addLootToInventory_count)
  qed
  show "inventory (distributeTeamLoot w raidParty teamLoot) (members raidParty ! i)
          = Some (invt\<lparr>credits := credits invt
                            + tl_credits teamLoot div int (length (members raidParty)),
                       items := items invt
                         @ take (nat (capacity invt - int (length (items invt))))
                             (map snd (filter (\<lambda>(j, _). j mod length (members raidParty) = i)
                                         (enumerate 0 (tl_items teamLoot))))\<rparr>)"
    if "distinct (members raidParty)" "i < length (members raidParty)"
      "inventory w (members raidParty ! i) = Some invt" for i invt
    using that by (rule distributeTeamLoot_member)
  show "inventory (distributeTeamLoot w raidParty teamLoot) u = inventory w u"
    if "u \<notin> set (members raidParty)" for u
    using that by (rule distributeTeamLoot_other)
qed

text \<open>
  An inventory with one free place of 20: the award of three items adds one, the
  distribution adds the first of the member's two items, the purchase adds the shield.
\<close>

theorem inventory_capacity_respected_witness:
  "within_capacity crowded_world
   \<and> map_option (\<lambda>i. (length (items i), capacity i, credits i)) (inventory crowded_world ''u1'')
       = Some (19, 20, 1000)
   \<and> (\<exists>w' g'. addLootToInventory crowded_world (\<lambda>_. 1 / 2) 1000 ''u1'' openai 250
                 = Normal (w', g')
        \<and> map_option (\<lambda>i. (int (length (items i)), credits i, capacity i)) (inventory w' ''u1'')
          = Some (20, 1050, 20))
   \<and> inventory (distributeTeamLoot crowded_world duo
                  \<lparr>tl_credits = 11, tl_items = [relic, trinket, relic]\<rparr>) ''u1''
       = Some \<lparr>items = replicate 19 trinket @ [relic], capacity = 20, credits = 1005\<rparr>
   \<and> handleBuyDefensiveItem crowded_world (\<lambda>_. 1 / 2) 1000 ''digital_shield'' ''u1''
       = (Purchased,
          crowded_world\<lparr>inventory := [''u1'' \<mapsto>
            \<lparr>items = replicate 19 trinket
               @ [\<lparr>item_id = Stamp_Rand 1000 (1 / 2), item_name = ''Digital Shield'',
                   item_type = ''digital_shield'', rarity = ''rare'', item_value = 500,
                   acquiredFrom = ''Defense Shop'', acquiredAt = 1000, activatedAt = None\<rparr>],
             capacity = 20, credits = 500\<rparr>]\<rparr>)"
proof -
  let ?invt = "\<lparr>items = replicate 19 trinket, capacity = 20, credits = 1000\<rparr>"
  let ?loot = "\<lparr>tl_credits = 11, tl_items = [relic, trinket, relic]\<rparr>"
  let ?shield = "\<lparr>d_name = ''Digital Shield'', protection = 75, d_duration = 3600000,
                   d_rarity = ''rare'', cost = 500\<rparr>"
  have inv: "inventory crowded_world ''u1'' = Some ?invt"
    by (simp add: crowded_world_def scenario_world_def empty_world_def)
  have wc: "within_capacity crowded_world"
    by (auto simp: within_capacity_def crowded_world_def scenario_world_def empty_world_def
        split: if_splits)
  have shield: "map_of defensiveItems ''digital_shield'' = Some ?shield"
    by (simp add: defensiveItems_def)
  have party: "distinct (members duo)" "0 < length (members duo)" "members duo ! 0 = ''u1''"
    by (simp_all add: duo_def)
  have inv0: "inventory crowded_world (members duo ! 0) = Some ?invt"
    using inv party(3) by simp
  have draws: "\<forall>n. (0 :: rat) \<le> (\<lambda>_. 1 / 2) n \<and> (\<lambda>_. 1 / 2 :: rat) n < 1"
    by simp
  have table: "loot openai \<noteq> []"
    by (simp add: openai_def)
  note t = inventory_capacity_respected [OF wc, of "\<lambda>_. 1 / 2" 1000 "''u1''" openai 250 duo
      ?loot "''digital_shield''"]
  have "\<exists>w' g'. addLootToInventory crowded_world (\<lambda>_. 1 / 2) 1000 ''u1'' openai 250
                 = Normal (w', g')
        \<and> map_option (\<lambda>i. (int (length (items i)), credits i, capacity i)) (inventory w' ''u1'')
          = Some (min (capacity ?invt)
                    (int (length (items ?invt)) + max 0 (min 3 (250 div 100 + 1))),
                  credits ?invt + 250 div 5, capacity ?invt)"
    using t inv table draws by blast
  then have award: "\<exists>w' g'. addLootToInventory crowded_world (\<lambda>_. 1 / 2) 1000 ''u1'' openai 250
                 = Normal (w', g')
        \<and> map_option (\<lambda>i. (int (length (items i)), credits i, capacity i)) (inventory w' ''u1'')
          = Some (20, 1050, 20)"
    by simp
  have "inventory (distributeTeamLoot crowded_world duo ?loot) (members duo ! 0)
          = Some (?invt\<lparr>credits := credits ?invt + tl_credits ?loot div int (length (members duo)),
                        items := items ?invt
                          @ take (nat (capacity ?invt - int (length (items ?invt))))
                              (map snd (filter (\<lambda>(j, _). j mod length (members duo) = 0)
                                          (enumerate 0 (tl_items ?loot))))\<rparr>)"
    using t party(1,2) inv0 by blast
  then have share: "inventory (distributeTeamLoot crowded_world duo ?loot) ''u1''
       = Some \<lparr>items = replicate 19 trinket @ [relic], capacity = 20, credits = 1005\<rparr>"
    by (simp add: duo_def)
  have "handleBuyDefensiveItem crowded_world (\<lambda>_. 1 / 2) 1000 ''digital_shield'' ''u1''
          = (Purchased,
             crowded_world\<lparr>inventory := (inventory crowded_world)
                 (''u1'' \<mapsto> ?invt\<lparr>credits := credits ?invt - cost ?shield,
                               items := items ?invt
                                 @ [\<lparr>item_id = Stamp_Rand 1000 (1 / 2),
                                     item_name = d_name ?shield, item_type = ''digital_shield'',
                                     rarity = d_rarity ?shield, item_value = cost ?shield,
                                     acquiredFrom = ''Defense Shop'',
                                     acquiredAt = 1000, activatedAt = None\<rparr>]\<rparr>)\<rparr>)"
    using t inv shield by simp
  then have buy: "handleBuyDefensiveItem crowded_world (\<lambda>_. 1 / 2) 1000 ''digital_shield'' ''u1''
       = (Purchased,
          crowded_world\<lparr>inventory := [''u1'' \<mapsto>
            \<lparr>items = replicate 19 trinket
               @ [\<lparr>item_id = Stamp_Rand 1000 (1 / 2), item_name = ''Digital Shield'',
                   item_type = ''digital_shield'', rarity = ''rare'', item_value = 500,
                   acquiredFrom = ''Defense Shop'', acquiredAt = 1000, activatedAt = None\<rparr>],
             capacity = 20, credits = 500\<rparr>]\<rparr>)"
    by (simp add: crowded_world_def scenario_world_def empty_world_def)
  show ?thesis
    using wc inv award share buy by simp
qed

section \<open>Party execution\<close>

text \<open>
  C7.  When a party has fewer ready members than members, a request to execute is
  refused and the world stays as it is (no damage, no loot, no energy spent): the leader is
  told that not all members are ready, anybody else that only the leader can execute.
  Whatever the readiness, a request by somebody other than the leader is refused and
  changes nothing.
\<close>

theorem team_raid_execute_all_or_nothing:
  "raidParties w partyId = Some p \<Longrightarrow>
     (set_size (readyMembers p) < length (members p) \<longrightarrow>
        handleExecuteTeamRaid w g now partyId uid =
          (if leader p = uid
           then NotAllMembersReady (set_size (readyMembers p)) (length (members p))
           else OnlyLeaderCanExecute, w))
     \<and> (uid \<noteq> leader p \<longrightarrow>
          handleExecuteTeamRaid w g now partyId uid = (OnlyLeaderCanExecute, w))"
  by (auto simp add: handleExecuteTeamRaid_def)

text \<open>Two of three ready: the leader's request and a member's request.\<close>

theorem team_raid_execute_all_or_nothing_witness:
  "raidParties trio_world ''p3'' = Some trio
   \<and> set_size (readyMembers trio) < length (members trio)
   \<and> handleExecuteTeamRaid trio_world (\<lambda>_. 0) 0 ''p3'' ''u1''
       = (NotAllMembersReady 2 3, trio_world)
   \<and> handleExecuteTeamRaid trio_world (\<lambda>_. 0) 0 ''p3'' ''u2''
       = (OnlyLeaderCanExecute, trio_world)"
proof -
  have p: "raidParties trio_world ''p3'' = Some trio"
    by (simp add: trio_world_def)
  have r: "set_size (readyMembers trio) < length (members trio)"
    by (simp add: trio_def set_size_def)
  have l: "leader trio = ''u1''"
    by (simp add: trio_def)
  have s: "set_size (readyMembers trio) = 2" "length (members trio) = 3"
    by (simp_all add: trio_def set_size_def)
  show ?thesis
    using p r team_raid_execute_all_or_nothing [OF p, of "\<lambda>_. 0" 0 "''u1''"]
      team_raid_execute_all_or_nothing [OF p, of "\<lambda>_. 0" 0 "''u2''"]
    by (simp add: l s)
qed

section \<open>Marketplace expiry\<close>

text \<open>
  C9.  Specified: an expired listing whose seller has no room is kept, and the escrowed
  item is never destroyed.  \<^const>\<open>cleanupExpiredListings\<close> deletes every expired listing:
  with the seller's inventory full, the marketplace is empty after the sweep and the
  seller's inventory holds what it held, so the listed item is gone.
\<close>

theorem expired_listing_item_is_destroyed:
  "marketplace (cleanupExpiredListings market_world 2000) = []
   \<and> map_option items (inventory (cleanupExpiredListings market_world 2000) ''u1'')
       = Some [trinket]
   \<and> l_item (snd (hd (marketplace market_world))) = relic
   \<and> relic \<noteq> trinket"
  by (simp add: cleanupExpiredListings_def expire_listing_def market_world_def full_world_def
      scenario_world_def empty_world_def update_inventory_def relic_def trinket_def)

section \<open>Auction settlement\<close>

text \<open>
  The sweep only adds items and credits to inventories that exist, so no inventory gains
  room.  An auction that the sweep has handled is either no longer active or was left
  alone because its bidder has no room, and a bidder without room stays without room.
\<close>

lemma no_new_room_refl: "no_new_room invs invs"
  by (simp add: no_new_room_def)

lemma no_new_room_trans: "no_new_room a b \<Longrightarrow> no_new_room b c \<Longrightarrow> no_new_room a c"
  by (simp add: no_new_room_def)

lemma settle_no_new_room: "no_new_room invs (fst (settle_auction now invs a))"
  by (auto simp: no_new_room_def has_room_def settle_auction_def Let_def
      split: option.splits if_splits)

lemma settle_untouched:
  "\<not> (a_status a = ''active'' \<and> a_endTime a \<le> now) \<Longrightarrow> settle_auction now invs a = (invs, a)"
  by (auto simp: settle_auction_def)

lemma settle_blocked:
  "winning_bidder a = Some b \<Longrightarrow> \<not> has_room invs b \<Longrightarrow> settle_auction now invs a = (invs, a)"
  by (auto simp: settle_auction_def has_room_def split: option.splits)

lemma settle_cases:
  "settle_auction now invs a = (invs1, a1) \<Longrightarrow>
     \<not> (a_status a1 = ''active'' \<and> a_endTime a1 \<le> now)
     \<or> (invs1 = invs \<and> a1 = a \<and> (\<exists>b. winning_bidder a = Some b \<and> \<not> has_room invs b))"
  by (auto simp: settle_auction_def has_room_def Let_def split: option.splits if_splits)

lemma auction_loop_no_new_room:
  "auction_loop now as invs = (as1, invs1) \<Longrightarrow> no_new_room invs invs1"
proof (induction as arbitrary: invs as1 invs1)
  case Nil
  then show ?case by (simp add: no_new_room_refl)
next
  case (Cons x as)
  obtain k a where x: "x = (k, a)" by (cases x)
  obtain i1 a1 where s: "settle_auction now invs a = (i1, a1)" by (cases "settle_auction now invs a")
  obtain r i2 where l: "auction_loop now as i1 = (r, i2)" by (cases "auction_loop now as i1")
  have "invs1 = i2" using Cons.prems x s l by simp
  moreover have "no_new_room invs i1" using settle_no_new_room [of invs now a] s by simp
  moreover have "no_new_room i1 i2" using Cons.IH [OF l] .
  ultimately show ?case using no_new_room_trans by blast
qed

text \<open>
  An auction that had ended when a sweep handled it is left alone by any later handling,
  at whatever time, on inventories that have gained no room.  The same holds for an
  auction that has not ended at either time, and for one that is not active.
\<close>

lemma settle_endTime: "a_endTime (snd (settle_auction now invs a)) = a_endTime a"
  by (auto simp: settle_auction_def Let_def split: option.splits if_splits)

lemma settle_stable_later:
  assumes "settle_auction now invs a = (invs1, a1)"
    and "a_status a = ''active'' \<and> a_endTime a \<le> now2 \<longrightarrow> a_endTime a \<le> now"
    and "no_new_room invs1 invs'"
  shows "settle_auction now2 invs' a1 = (invs', a1)"
proof (cases "a_status a = ''active'' \<and> a_endTime a \<le> now")
  case True
  have e: "a_endTime a1 = a_endTime a"
    using settle_endTime [of now invs a] assms(1) by simp
  from settle_cases [OF assms(1)] show ?thesis
  proof
    assume "\<not> (a_status a1 = ''active'' \<and> a_endTime a1 \<le> now)"
    then have "a_status a1 \<noteq> ''active''"
      using True e by simp
    then show ?thesis by (simp add: settle_untouched)
  next
    assume "invs1 = invs \<and> a1 = a \<and> (\<exists>b. winning_bidder a = Some b \<and> \<not> has_room invs b)"
    then obtain b where eq: "invs1 = invs" "a1 = a"
      and b: "winning_bidder a = Some b" "\<not> has_room invs b"
      by blast
    have "\<not> has_room invs' b"
      using assms(3) b(2) eq(1) by (auto simp: no_new_room_def)
    then show ?thesis using b(1) eq(2) by (simp add: settle_blocked)
  qed
next
  case False
  then have "a1 = a"
    using assms(1) by (simp add: settle_untouched)
  moreover have "\<not> (a_status a = ''active'' \<and> a_endTime a \<le> now2)"
    using False assms(2) by blast
  ultimately show ?thesis by (simp add: settle_untouched)
qed

lemma auction_loop_stable_later:
  "auction_loop now as invs = (as1, invs1) \<Longrightarrow> no_new_room invs1 invs' \<Longrightarrow>
   \<forall>(k, a) \<in> set as. a_status a = ''active'' \<and> a_endTime a \<le> now2 \<longrightarrow> a_endTime a \<le> now \<Longrightarrow>
   auction_loop now2 as1 invs' = (as1, invs')"
proof (induction as arbitrary: invs as1 invs1)
  case Nil
  then show ?case by simp
next
  case (Cons x as)
  obtain k a where x: "x = (k, a)" by (cases x)
  obtain i1 a1 where s: "settle_auction now invs a = (i1, a1)" by (cases "settle_auction now invs a")
  obtain r i2 where l: "auction_loop now as i1 = (r, i2)" by (cases "auction_loop now as i1")
  have eq: "as1 = (k, a1) # r" "invs1 = i2" using Cons.prems(1) x s l by simp_all
  have "no_new_room i1 invs'"
    using auction_loop_no_new_room [OF l] Cons.prems(2) eq(2) no_new_room_trans by blast
  moreover have "a_status a = ''active'' \<and> a_endTime a \<le> now2 \<longrightarrow> a_endTime a \<le> now"
    using Cons.prems(3) x by simp
  ultimately have 1: "settle_auction now2 invs' a1 = (invs', a1)"
    using settle_stable_later [OF s] by simp
  have 2: "auction_loop now2 r invs' = (r, invs')"
    using Cons.IH [OF l] Cons.prems(2,3) eq(2) by simp
  show ?case using 1 2 eq(1) by simp
qed

lemma sweep_again_no_effect:
  assumes "\<forall>(k, a) \<in> set (auctions w).
             a_status a = ''active'' \<and> a_endTime a \<le> now2 \<longrightarrow> a_endTime a \<le> now"
  shows "processAuctionTimers (processAuctionTimers w now) now2 = processAuctionTimers w now"
proof -
  obtain as1 invs1 where l: "auction_loop now (auctions w) (inventory w) = (as1, invs1)"
    by (cases "auction_loop now (auctions w) (inventory w)")
  have "auction_loop now2 as1 invs1 = (as1, invs1)"
    using auction_loop_stable_later [OF l no_new_room_refl assms] .
  then show ?thesis using l by (simp add: processAuctionTimers_def)
qed

lemma sweep_idempotent:
  "processAuctionTimers (processAuctionTimers w now) now = processAuctionTimers w now"
  by (rule sweep_again_no_effect) auto

text \<open>The items an inventory holds stay at its front.\<close>

lemma keeps_items_refl: "keeps_items invs invs"
  by (simp add: keeps_items_def)

lemma keeps_items_trans:
  assumes "keeps_items a b" "keeps_items b c"
  shows "keeps_items a c"
  unfolding keeps_items_def
proof (intro allI impI)
  fix u x
  assume "a u = Some x"
  then obtain y where y: "b u = Some y" "take (length (items x)) (items y) = items x"
    using assms(1) by (auto simp: keeps_items_def)
  then obtain z where z: "c u = Some z" "take (length (items y)) (items z) = items y"
    using assms(2) by (auto simp: keeps_items_def)
  have "min (length (items y)) (length (items x)) = length (items x)"
    using arg_cong [OF y(2), of length] by simp
  then have le: "length (items x) \<le> length (items y)"
    by linarith
  have "take (length (items x)) (items z)
          = take (length (items x)) (take (length (items y)) (items z))"
    using le by (simp add: min.absorb1)
  also have "\<dots> = items x"
    using z(2) y(2) by simp
  finally show "\<exists>z. c u = Some z \<and> take (length (items x)) (items z) = items x"
    using z(1) by blast
qed

lemma settle_keeps_items: "keeps_items invs (fst (settle_auction now invs a))"
  by (auto simp: keeps_items_def settle_auction_def Let_def split: option.splits if_splits)

lemma auction_loop_keeps_items:
  "auction_loop now as invs = (as1, invs1) \<Longrightarrow> keeps_items invs invs1"
proof (induction as arbitrary: invs as1 invs1)
  case Nil
  then show ?case by (simp add: keeps_items_refl)
next
  case (Cons x as)
  obtain k a where x: "x = (k, a)" by (cases x)
  obtain i1 a1 where s: "settle_auction now invs a = (i1, a1)" by (cases "settle_auction now invs a")
  obtain r i2 where l: "auction_loop now as i1 = (r, i2)" by (cases "auction_loop now as i1")
  have "invs1 = i2" using Cons.prems x s l by simp
  moreover have "keeps_items invs i1" using settle_keeps_items [of invs now a] s by simp
  moreover have "keeps_items i1 i2" using Cons.IH [OF l] .
  ultimately show ?case using keeps_items_trans by blast
qed

text \<open>
  The sweep over a list of auctions is the sweep over its first part followed by the sweep
  over the rest, on the inventories the first part left.
\<close>

lemma auction_loop_append:
  "auction_loop now (xs @ ys) invs =
     (case auction_loop now xs invs of (xs', i1) \<Rightarrow>
        (case auction_loop now ys i1 of (ys', i2) \<Rightarrow> (xs' @ ys', i2)))"
  by (induction xs arbitrary: invs) (auto split: prod.splits)

lemma auction_loop_length:
  "auction_loop now xs invs = (xs', invs') \<Longrightarrow> length xs' = length xs"
  by (induction xs arbitrary: invs xs' invs') (auto split: prod.splits)

lemma sweep_decompose:
  assumes "auctions w = pre @ (k, a) # post"
  shows "\<exists>pre' i1 i2 a1 post' i3.
           auction_loop now pre (inventory w) = (pre', i1)
         \<and> settle_auction now i1 a = (i2, a1)
         \<and> auction_loop now post i2 = (post', i3)
         \<and> processAuctionTimers (w\<lparr>auctions := pre\<rparr>) now = w\<lparr>auctions := pre', inventory := i1\<rparr>
         \<and> processAuctionTimers (w\<lparr>auctions := pre @ [(k, a)]\<rparr>) now
             = w\<lparr>auctions := pre' @ [(k, a1)], inventory := i2\<rparr>
         \<and> processAuctionTimers w now = w\<lparr>auctions := pre' @ (k, a1) # post', inventory := i3\<rparr>
         \<and> length pre' = length pre"
proof -
  obtain pre' i1 where p: "auction_loop now pre (inventory w) = (pre', i1)"
    by (cases "auction_loop now pre (inventory w)")
  obtain i2 a1 where s: "settle_auction now i1 a = (i2, a1)"
    by (cases "settle_auction now i1 a")
  obtain post' i3 where q: "auction_loop now post i2 = (post', i3)"
    by (cases "auction_loop now post i2")
  have 1: "processAuctionTimers (w\<lparr>auctions := pre\<rparr>) now = w\<lparr>auctions := pre', inventory := i1\<rparr>"
    using p by (simp add: processAuctionTimers_def)
  have 2: "processAuctionTimers (w\<lparr>auctions := pre @ [(k, a)]\<rparr>) now
             = w\<lparr>auctions := pre' @ [(k, a1)], inventory := i2\<rparr>"
    using p s by (simp add: processAuctionTimers_def auction_loop_append)
  have 3: "processAuctionTimers w now = w\<lparr>auctions := pre' @ (k, a1) # post', inventory := i3\<rparr>"
    using p s q assms by (simp add: processAuctionTimers_def auction_loop_append)
  have 4: "length pre' = length pre"
    using auction_loop_length [OF p] .
  show ?thesis using p s q 1 2 3 4 by blast
qed

text \<open>
  A second sweep, at any time: the step for an auction that had ended at the first sweep
  changes neither the inventories nor the record.
\<close>

lemma sweep_again_step:
  assumes w: "auctions w = pre @ (k, a) # post"
    and e: "a_status a = ''active'' \<and> a_endTime a \<le> now2 \<longrightarrow> a_endTime a \<le> now"
  shows "processAuctionTimers
           ((processAuctionTimers w now)
              \<lparr>auctions := take (Suc (length pre)) (auctions (processAuctionTimers w now))\<rparr>) now2
         = (let v = processAuctionTimers
                      ((processAuctionTimers w now)
                         \<lparr>auctions := take (length pre) (auctions (processAuctionTimers w now))\<rparr>)
                      now2
            in v\<lparr>auctions := auctions v @ [auctions (processAuctionTimers w now) ! length pre]\<rparr>)"
    and "auctions (processAuctionTimers (processAuctionTimers w now) now2) ! length pre
           = auctions (processAuctionTimers w now) ! length pre"
proof -
  obtain pre' i1 i2 a1 post' i3 where
    p: "auction_loop now pre (inventory w) = (pre', i1)"
    and s: "settle_auction now i1 a = (i2, a1)"
    and q: "auction_loop now post i2 = (post', i3)"
    and wf: "processAuctionTimers w now = w\<lparr>auctions := pre' @ (k, a1) # post', inventory := i3\<rparr>"
    and len: "length pre' = length pre"
    using sweep_decompose [OF w, of now] by blast
  obtain pre2 j1 where p2: "auction_loop now2 pre' i3 = (pre2, j1)"
    by (cases "auction_loop now2 pre' i3")
  have len2: "length pre2 = length pre"
    using auction_loop_length [OF p2] len by simp
  have "no_new_room i2 i3"
    using auction_loop_no_new_room [OF q] .
  moreover have "no_new_room i3 j1"
    using auction_loop_no_new_room [OF p2] .
  ultimately have "no_new_room i2 j1"
    using no_new_room_trans by blast
  then have s2: "settle_auction now2 j1 a1 = (j1, a1)"
    using settle_stable_later [OF s e] by simp
  obtain post2 j3 where q2: "auction_loop now2 post' j1 = (post2, j3)"
    by (cases "auction_loop now2 post' j1")
  have tk: "take (Suc (length pre)) (pre' @ (k, a1) # post') = pre' @ [(k, a1)]"
    "take (length pre) (pre' @ (k, a1) # post') = pre'"
    "(pre' @ (k, a1) # post') ! length pre = (k, a1)"
    using len by (simp_all add: nth_append)
  show "processAuctionTimers
           ((processAuctionTimers w now)
              \<lparr>auctions := take (Suc (length pre)) (auctions (processAuctionTimers w now))\<rparr>) now2
         = (let v = processAuctionTimers
                      ((processAuctionTimers w now)
                         \<lparr>auctions := take (length pre) (auctions (processAuctionTimers w now))\<rparr>)
                      now2
            in v\<lparr>auctions := auctions v @ [auctions (processAuctionTimers w now) ! length pre]\<rparr>)"
    unfolding wf using p2 s2 tk
    by (simp add: processAuctionTimers_def auction_loop_append Let_def)
  show "auctions (processAuctionTimers (processAuctionTimers w now) now2) ! length pre
           = auctions (processAuctionTimers w now) ! length pre"
    unfolding wf using p2 s2 q2 tk len2
    by (simp add: processAuctionTimers_def auction_loop_append nth_append)
qed


lemma settle_winner:
  assumes "a_status a = ''active''" "a_endTime a \<le> now" "winning_bidder a = Some b"
    "invs b = Some wi" "int (length (items wi)) < capacity wi"
  shows "a_status (snd (settle_auction now invs a)) = ''completed''"
    and "winner (snd (settle_auction now invs a)) = Some b"
    and "map_option items (fst (settle_auction now invs a) b) = Some (items wi @ [a_item a])"
    and "invs (a_sellerId a) = Some si \<Longrightarrow>
         map_option credits (fst (settle_auction now invs a) (a_sellerId a))
           = Some (credits si + (currentBid a - currentBid a div 10))"
  using assms by (auto simp: settle_auction_def Let_def split: option.splits)

lemma settle_winner_exact:
  assumes "a_status a = ''active''" "a_endTime a \<le> now" "winning_bidder a = Some b"
    "invs b = Some wi" "int (length (items wi)) < capacity wi"
  shows "snd (settle_auction now invs a) = a\<lparr>a_status := ''completed'', winner := Some b\<rparr>"
    and "u \<noteq> b \<Longrightarrow> u \<noteq> a_sellerId a \<Longrightarrow> fst (settle_auction now invs a) u = invs u"
  using assms by (auto simp: settle_auction_def Let_def split: option.splits)

lemma settle_no_bid_exact:
  assumes "a_status a = ''active''" "a_endTime a \<le> now" "winning_bidder a = None"
    "invs (a_sellerId a) = Some si" "int (length (items si)) < capacity si"
  shows "settle_auction now invs a
           = (invs(a_sellerId a \<mapsto> si\<lparr>items := items si @ [a_item a]\<rparr>),
              a\<lparr>a_status := ''expired''\<rparr>)"
  using assms by (simp add: settle_auction_def Let_def)

text \<open>
  C8, as specified: one sweep settles every auction whose end time has passed.
  An ended auction with a bid above the starting bid whose bidder has a full inventory is
  not settled: the sweep leaves the world as it is, the auction still active.
\<close>

theorem ended_auction_left_unsettled:
  "auctions auction_world = [(''A1'', lot)]
   \<and> a_status lot = ''active'' \<and> a_endTime lot \<le> 2000
   \<and> startingBid lot < currentBid lot \<and> currentBidder lot = Some ''u1''
   \<and> processAuctionTimers auction_world 2000 = auction_world"
  by (simp add: processAuctionTimers_def settle_auction_def winning_bidder_def auction_world_def
      empty_world_def lot_def)

text \<open>
  C8, amended.  Let the auctions of \<open>w\<close> be \<open>pre\<close>, then the auction \<open>a\<close> under key \<open>k\<close>,
  then \<open>post\<close>; let \<open>w_pre\<close> be the world when the sweep at time \<open>now\<close> reaches \<open>a\<close> (the sweep
  over \<open>pre\<close>), \<open>w_step\<close> the world after its step for \<open>a\<close> (the sweep over \<open>pre\<close> and \<open>a\<close>),
  and \<open>w_end\<close> the world after the whole sweep.  The records of \<open>w_step\<close> are the first
  records of \<open>w_end\<close>, and what the inventories of \<open>w_step\<close> hold stays at their front in
  \<open>w_end\<close>.  If \<open>a\<close> is active and its end time has passed: with a bid above the starting bid
  and a bidder whose inventory in \<open>w_pre\<close> exists and has room, the record is completed with
  the bidder as winner, the bidder receives the item (and still holds it in \<open>w_end\<close>), the
  seller's inventory, if there is one, is credited with the bid minus the fee of a tenth,
  rounded down, and no other inventory changes; with such a bid and a bidder without room
  or inventory, the step changes nothing and the auction stays active; with no such bid
  and a seller whose inventory has room, the item is back with the seller and the record
  is expired.  An auction that is not active or has not ended is left as it is.
  Exactly once: if the end time of \<open>a\<close> had passed at \<open>now\<close>, then in a second sweep, at any
  time, the step for \<open>a\<close> changes neither the inventories nor its record; and a second sweep
  at a time by which no further active auction has ended, the same time included, changes
  nothing at all.
\<close>

theorem auction_sweep_settlement:
  assumes list: "auctions w = pre @ (k, a) # post"
    and w_pre: "w_pre = processAuctionTimers (w\<lparr>auctions := pre\<rparr>) now"
    and w_step: "w_step = processAuctionTimers (w\<lparr>auctions := pre @ [(k, a)]\<rparr>) now"
    and w_end: "w_end = processAuctionTimers w now"
  shows "take (Suc (length pre)) (auctions w_end) = auctions w_step
   \<and> keeps_items (inventory w_step) (inventory w_end)
   \<and> (a_status a = ''active'' \<and> a_endTime a \<le> now \<longrightarrow>
        (\<forall>b wi. winning_bidder a = Some b \<and> inventory w_pre b = Some wi
                 \<and> int (length (items wi)) < capacity wi \<longrightarrow>
             auctions w_step = auctions w_pre @ [(k, a\<lparr>a_status := ''completed'', winner := Some b\<rparr>)]
             \<and> map_option items (inventory w_step b) = Some (items wi @ [a_item a])
             \<and> (\<forall>si. inventory w_pre (a_sellerId a) = Some si \<longrightarrow>
                   map_option credits (inventory w_step (a_sellerId a))
                     = Some (credits si + (currentBid a - currentBid a div 10)))
             \<and> (\<forall>u. u \<noteq> b \<and> u \<noteq> a_sellerId a \<longrightarrow> inventory w_step u = inventory w_pre u)
             \<and> (\<exists>y. inventory w_end b = Some y
                    \<and> take (length (items wi) + 1) (items y) = items wi @ [a_item a]))
        \<and> (\<forall>b. winning_bidder a = Some b \<and> \<not> has_room (inventory w_pre) b \<longrightarrow>
               w_step = w_pre\<lparr>auctions := auctions w_pre @ [(k, a)]\<rparr>)
        \<and> (winning_bidder a = None \<longrightarrow>
             (\<forall>si. inventory w_pre (a_sellerId a) = Some si
                     \<and> int (length (items si)) < capacity si \<longrightarrow>
                w_step = w_pre\<lparr>auctions := auctions w_pre @ [(k, a\<lparr>a_status := ''expired''\<rparr>)],
                       inventory := (inventory w_pre)
                         (a_sellerId a \<mapsto> si\<lparr>items := items si @ [a_item a]\<rparr>)\<rparr>)))
   \<and> (\<not> (a_status a = ''active'' \<and> a_endTime a \<le> now) \<longrightarrow>
        w_step = w_pre\<lparr>auctions := auctions w_pre @ [(k, a)]\<rparr>)
   \<and> (a_endTime a \<le> now \<longrightarrow>
        (\<forall>now2. auctions (processAuctionTimers w_end now2) ! length pre = auctions w_end ! length pre
           \<and> processAuctionTimers (w_end\<lparr>auctions := take (Suc (length pre)) (auctions w_end)\<rparr>) now2
               = (let v = processAuctionTimers
                            (w_end\<lparr>auctions := take (length pre) (auctions w_end)\<rparr>) now2
                  in v\<lparr>auctions := auctions v @ [auctions w_end ! length pre]\<rparr>)))
   \<and> (\<forall>now2. (\<forall>(k', a') \<in> set (auctions w).
                  a_status a' = ''active'' \<and> a_endTime a' \<le> now2 \<longrightarrow> a_endTime a' \<le> now) \<longrightarrow>
         processAuctionTimers w_end now2 = w_end)
   \<and> processAuctionTimers w_end now = w_end"
proof -
  obtain pre' i1 i2 a1 post' i3 where
    p: "auction_loop now pre (inventory w) = (pre', i1)"
    and s: "settle_auction now i1 a = (i2, a1)"
    and q: "auction_loop now post i2 = (post', i3)"
    and w_pre': "w_pre = w\<lparr>auctions := pre', inventory := i1\<rparr>"
    and w_step': "w_step = w\<lparr>auctions := pre' @ [(k, a1)], inventory := i2\<rparr>"
    and w_end': "w_end = w\<lparr>auctions := pre' @ (k, a1) # post', inventory := i3\<rparr>"
    and len: "length pre' = length pre"
    using sweep_decompose [OF list, of now] w_pre w_step w_end by auto
  have c1: "take (Suc (length pre)) (auctions w_end) = auctions w_step"
    using len by (simp add: w_end' w_step')
  have c2: "keeps_items (inventory w_step) (inventory w_end)"
    using auction_loop_keeps_items [OF q] by (simp add: w_end' w_step')
  have c3a: "auctions w_step = auctions w_pre @ [(k, a\<lparr>a_status := ''completed'', winner := Some b\<rparr>)]
             \<and> map_option items (inventory w_step b) = Some (items wi @ [a_item a])
             \<and> (\<forall>si. inventory w_pre (a_sellerId a) = Some si \<longrightarrow>
                   map_option credits (inventory w_step (a_sellerId a))
                     = Some (credits si + (currentBid a - currentBid a div 10)))
             \<and> (\<forall>u. u \<noteq> b \<and> u \<noteq> a_sellerId a \<longrightarrow> inventory w_step u = inventory w_pre u)
             \<and> (\<exists>y. inventory w_end b = Some y
                    \<and> take (length (items wi) + 1) (items y) = items wi @ [a_item a])"
    if act: "a_status a = ''active'' \<and> a_endTime a \<le> now"
      and win: "winning_bidder a = Some b \<and> inventory w_pre b = Some wi
                \<and> int (length (items wi)) < capacity wi" for b wi
  proof -
    have ib: "i1 b = Some wi"
      using win by (simp add: w_pre')
    note sw = settle_winner [of a now b i1 wi] settle_winner_exact [of a now b i1 wi]
    have rec: "a1 = a\<lparr>a_status := ''completed'', winner := Some b\<rparr>"
      using sw(5) act win ib s by simp
    have its: "map_option items (i2 b) = Some (items wi @ [a_item a])"
      using sw(3) act win ib s by simp
    have crd: "map_option credits (i2 (a_sellerId a))
                 = Some (credits si + (currentBid a - currentBid a div 10))"
      if "i1 (a_sellerId a) = Some si" for si
      using sw(4) [of si] act win ib s that by simp
    have oth: "i2 u = i1 u" if "u \<noteq> b \<and> u \<noteq> a_sellerId a" for u
      using sw(6) [of u] act win ib s that by simp
    obtain x where x: "i2 b = Some x" "items x = items wi @ [a_item a]"
      using its by (cases "i2 b") auto
    obtain y where y: "i3 b = Some y" "take (length (items x)) (items y) = items x"
      using c2 x(1) by (auto simp: keeps_items_def w_step' w_end')
    have fin: "\<exists>y. inventory w_end b = Some y
                 \<and> take (length (items wi) + 1) (items y) = items wi @ [a_item a]"
      using y x(2) by (simp add: w_end')
    show ?thesis
      using rec its crd oth fin by (simp add: w_step' w_pre')
  qed
  have c3b: "w_step = w_pre\<lparr>auctions := auctions w_pre @ [(k, a)]\<rparr>"
    if "winning_bidder a = Some b \<and> \<not> has_room (inventory w_pre) b" for b
  proof -
    have "settle_auction now i1 a = (i1, a)"
      using that by (simp add: settle_blocked w_pre')
    then show ?thesis using s by (simp add: w_step' w_pre')
  qed
  have c3c: "w_step = w_pre\<lparr>auctions := auctions w_pre @ [(k, a\<lparr>a_status := ''expired''\<rparr>)],
                     inventory := (inventory w_pre)
                       (a_sellerId a \<mapsto> si\<lparr>items := items si @ [a_item a]\<rparr>)\<rparr>"
    if act: "a_status a = ''active'' \<and> a_endTime a \<le> now" and nb: "winning_bidder a = None"
      and sel: "inventory w_pre (a_sellerId a) = Some si \<and> int (length (items si)) < capacity si"
    for si
  proof -
    have "settle_auction now i1 a
           = (i1(a_sellerId a \<mapsto> si\<lparr>items := items si @ [a_item a]\<rparr>),
              a\<lparr>a_status := ''expired''\<rparr>)"
      using act nb sel by (intro settle_no_bid_exact) (simp_all add: w_pre')
    then show ?thesis using s by (simp add: w_step' w_pre')
  qed
  have c4: "w_step = w_pre\<lparr>auctions := auctions w_pre @ [(k, a)]\<rparr>"
    if "\<not> (a_status a = ''active'' \<and> a_endTime a \<le> now)"
  proof -
    have "settle_auction now i1 a = (i1, a)"
      using that by (rule settle_untouched)
    then show ?thesis using s by (simp add: w_step' w_pre')
  qed
  have c5: "auctions (processAuctionTimers w_end now2) ! length pre = auctions w_end ! length pre
           \<and> processAuctionTimers (w_end\<lparr>auctions := take (Suc (length pre)) (auctions w_end)\<rparr>) now2
               = (let v = processAuctionTimers
                            (w_end\<lparr>auctions := take (length pre) (auctions w_end)\<rparr>) now2
                  in v\<lparr>auctions := auctions v @ [auctions w_end ! length pre]\<rparr>)"
    if "a_endTime a \<le> now" for now2
    using sweep_again_step [OF list, of now2 now] that unfolding w_end by blast
  have c6: "processAuctionTimers w_end now2 = w_end"
    if "\<forall>(k', a') \<in> set (auctions w).
          a_status a' = ''active'' \<and> a_endTime a' \<le> now2 \<longrightarrow> a_endTime a' \<le> now" for now2
    unfolding w_end using that by (rule sweep_again_no_effect)
  have c7: "processAuctionTimers w_end now = w_end"
    unfolding w_end by (rule sweep_idempotent)
  note c3a' = c3a [THEN conjunct1] c3a [THEN conjunct2, THEN conjunct1]
    c3a [THEN conjunct2, THEN conjunct2, THEN conjunct1, THEN spec, THEN mp]
    c3a [THEN conjunct2, THEN conjunct2, THEN conjunct2, THEN conjunct1, THEN spec, THEN mp]
    c3a [THEN conjunct2, THEN conjunct2, THEN conjunct2, THEN conjunct2]
  note c5' = c5 [THEN conjunct1] c5 [THEN conjunct2]
  show ?thesis
    by (intro conjI impI allI c1 c2 c7; (rule c3a' c3b c3c c4 c5' c6; assumption))
qed

text \<open>
  Two ended auctions of one seller.  The first is won: the bidder receives the item and 450
  of the 500 credits reach the seller.  The second has no bid: its item returns to the
  seller.  A sweep one second later changes nothing.
\<close>

lemmas auction_eval = processAuctionTimers_def settle_auction_def winning_bidder_def
  auction_world_two_def auction_world_ok_def auction_world_def empty_world_def lot_def
  unsold_def Let_def

theorem auction_sweep_settlement_witness:
  "auctions auction_world_two = [(''A1'', lot), (''A2'', unsold)]
   \<and> (a_status lot = ''active'' \<and> a_endTime lot \<le> 2000 \<and> winning_bidder lot = Some ''u1'')
   \<and> (a_status unsold = ''active'' \<and> a_endTime unsold \<le> 2000 \<and> winning_bidder unsold = None)
   \<and> auctions (processAuctionTimers (auction_world_two\<lparr>auctions := [(''A1'', lot)]\<rparr>) 2000)
       = [(''A1'', lot\<lparr>a_status := ''completed'', winner := Some ''u1''\<rparr>)]
   \<and> map_option items
       (inventory (processAuctionTimers (auction_world_two\<lparr>auctions := [(''A1'', lot)]\<rparr>) 2000)
          ''u1'') = Some [trinket, relic]
   \<and> map_option credits
       (inventory (processAuctionTimers (auction_world_two\<lparr>auctions := [(''A1'', lot)]\<rparr>) 2000)
          ''u2'') = Some 450
   \<and> processAuctionTimers auction_world_two 2000
       = auction_world_two
           \<lparr>auctions := [(''A1'', lot\<lparr>a_status := ''completed'', winner := Some ''u1''\<rparr>),
                         (''A2'', unsold\<lparr>a_status := ''expired''\<rparr>)],
            inventory := [''u1'' \<mapsto> \<lparr>items = [trinket, relic], capacity = 20, credits = 1000\<rparr>,
                          ''u2'' \<mapsto> \<lparr>items = [trinket], capacity = 20, credits = 450\<rparr>]\<rparr>
   \<and> processAuctionTimers (processAuctionTimers auction_world_two 2000) 3000
       = processAuctionTimers auction_world_two 2000"
proof -
  let ?w = auction_world_two
  let ?b = "\<lparr>items = [trinket], capacity = 20, credits = 1000\<rparr>"
  let ?s = "\<lparr>items = [], capacity = 20, credits = 0\<rparr>"
  let ?s1 = "\<lparr>items = [], capacity = 20, credits = 450\<rparr>"
  have l0: "auctions ?w = [(''A1'', lot), (''A2'', unsold)]"
    by (simp add: auction_world_two_def)
  have l1: "auctions ?w = [] @ (''A1'', lot) # [(''A2'', unsold)]"
    by (simp add: auction_world_two_def)
  have l2: "auctions ?w = [(''A1'', lot)] @ (''A2'', unsold) # []"
    by (simp add: auction_world_two_def)
  have whole: "?w\<lparr>auctions := [(''A1'', lot)] @ [(''A2'', unsold)]\<rparr> = ?w"
    by (simp add: auction_world_two_def)
  have act1: "a_status lot = ''active'' \<and> a_endTime lot \<le> 2000"
    by (simp add: lot_def)
  have act2: "a_status unsold = ''active'' \<and> a_endTime unsold \<le> 2000"
    by (simp add: unsold_def)
  have nb2: "winning_bidder unsold = None"
    by (simp add: winning_bidder_def unsold_def)
  have win1: "winning_bidder lot = Some ''u1''
      \<and> inventory (processAuctionTimers (?w\<lparr>auctions := []\<rparr>) 2000) ''u1'' = Some ?b
      \<and> int (length (items ?b)) < capacity ?b"
    by (simp add: auction_eval)
  have sel1: "inventory (processAuctionTimers (?w\<lparr>auctions := []\<rparr>) 2000) (a_sellerId lot)
                = Some ?s"
    by (simp add: auction_eval)
  have none1: "auctions (processAuctionTimers (?w\<lparr>auctions := []\<rparr>) 2000) = []"
    by (simp add: auction_eval)
  note t1 = auction_sweep_settlement [where now = 2000, OF l1 refl refl refl]
  from t1 act1 win1 sel1
  have a: "auctions (processAuctionTimers (?w\<lparr>auctions := [] @ [(''A1'', lot)]\<rparr>) 2000)
             = auctions (processAuctionTimers (?w\<lparr>auctions := []\<rparr>) 2000)
               @ [(''A1'', lot\<lparr>a_status := ''completed'', winner := Some ''u1''\<rparr>)]"
    and b: "map_option items
              (inventory (processAuctionTimers (?w\<lparr>auctions := [] @ [(''A1'', lot)]\<rparr>) 2000) ''u1'')
             = Some (items ?b @ [a_item lot])"
    and c: "map_option credits
              (inventory (processAuctionTimers (?w\<lparr>auctions := [] @ [(''A1'', lot)]\<rparr>) 2000)
                 (a_sellerId lot))
             = Some (credits ?s + (currentBid lot - currentBid lot div 10))"
    by blast+
  have pre2: "processAuctionTimers (?w\<lparr>auctions := [(''A1'', lot)]\<rparr>) 2000
      = ?w\<lparr>auctions := [(''A1'', lot\<lparr>a_status := ''completed'', winner := Some ''u1''\<rparr>)],
            inventory := [''u1'' \<mapsto> \<lparr>items = [trinket, relic], capacity = 20, credits = 1000\<rparr>,
                          ''u2'' \<mapsto> ?s1]\<rparr>"
    by (simp add: auction_eval)
  have sel2: "inventory (processAuctionTimers (?w\<lparr>auctions := [(''A1'', lot)]\<rparr>) 2000)
                (a_sellerId unsold) = Some ?s1
              \<and> int (length (items ?s1)) < capacity ?s1"
    unfolding pre2 by (simp add: unsold_def)
  have later: "\<forall>(k', a') \<in> set (auctions ?w).
                 a_status a' = ''active'' \<and> a_endTime a' \<le> 3000 \<longrightarrow> a_endTime a' \<le> 2000"
    by (simp add: auction_world_two_def lot_def unsold_def)
  note t2 = auction_sweep_settlement [where now = 2000, OF l2 refl refl refl]
  from t2 act2 nb2 sel2
  have d: "processAuctionTimers (?w\<lparr>auctions := [(''A1'', lot)] @ [(''A2'', unsold)]\<rparr>) 2000
      = (processAuctionTimers (?w\<lparr>auctions := [(''A1'', lot)]\<rparr>) 2000)
          \<lparr>auctions := auctions (processAuctionTimers (?w\<lparr>auctions := [(''A1'', lot)]\<rparr>) 2000)
                         @ [(''A2'', unsold\<lparr>a_status := ''expired''\<rparr>)],
           inventory := (inventory (processAuctionTimers (?w\<lparr>auctions := [(''A1'', lot)]\<rparr>) 2000))
                          (a_sellerId unsold \<mapsto> ?s1\<lparr>items := items ?s1 @ [a_item unsold]\<rparr>)\<rparr>"
    by blast
  from t2 later
  have e: "processAuctionTimers (processAuctionTimers ?w 2000) 3000 = processAuctionTimers ?w 2000"
    by blast
  have a': "auctions (processAuctionTimers (?w\<lparr>auctions := [(''A1'', lot)]\<rparr>) 2000)
       = [(''A1'', lot\<lparr>a_status := ''completed'', winner := Some ''u1''\<rparr>)]"
    using a none1 by simp
  have b': "map_option items
       (inventory (processAuctionTimers (?w\<lparr>auctions := [(''A1'', lot)]\<rparr>) 2000) ''u1'')
         = Some [trinket, relic]"
    using b by (simp add: lot_def)
  have c': "map_option credits
       (inventory (processAuctionTimers (?w\<lparr>auctions := [(''A1'', lot)]\<rparr>) 2000) ''u2'')
         = Some 450"
    using c by (simp add: lot_def)
  have d': "processAuctionTimers ?w 2000
       = ?w\<lparr>auctions := [(''A1'', lot\<lparr>a_status := ''completed'', winner := Some ''u1''\<rparr>),
                         (''A2'', unsold\<lparr>a_status := ''expired''\<rparr>)],
            inventory := [''u1'' \<mapsto> \<lparr>items = [trinket, relic], capacity = 20, credits = 1000\<rparr>,
                          ''u2'' \<mapsto> \<lparr>items = [trinket], capacity = 20, credits = 450\<rparr>]\<rparr>"
    using d unfolding whole pre2 by (simp add: unsold_def)
  show ?thesis
    using l0 act1 win1 act2 nb2 a' b' c' d' e by blast
qed

section \<open>Snapshots: the round trip\<close>

text \<open>
  C6.  Specified: loading a backup just created reproduces the world, cooldowns included.
  A world with one cooldown (set by \<^const>\<open>setCooldown\<close>: the user's cooldowns are a
  \<^verbatim>\<open>Map\<close>) comes back with the empty object in place of the user's cooldown map.
\<close>

theorem backup_roundtrip_loses_cooldowns:
  "g_cooldowns snapshot_maps
     = [(''123456789012345678'', JMap [(JStr ''raid'', JNum 301000)])]
   \<and> loadBackup no_maps (Some (createBackup toISO ts snapshot_maps))
     = Some (True, no_maps\<lparr>g_cooldowns := [(''123456789012345678'', JObj [])]\<rparr>)"
  by (simp add: loadBackup_def createBackup_def setCooldown_def no_maps_def snapshot_maps_def
      map_set_def fromEntries_def array_index_def digit_of_def restored_map_def
      is_defined_def undefined_to_null_def)

end
